theory Spec2Isabelle
  imports Main
begin

section \<open>Data model: voicevox\_engine/metas/Metas.py\<close>

text \<open>
  \<^verbatim>\<open>StyleId = NewType("StyleId", int)\<close> and
  \<^verbatim>\<open>StyleType = Literal["talk", "singing_teacher", "frame_decode", "sing"]\<close>.
  At run time a style type is a Python string; the \<^verbatim>\<open>Literal\<close> lists the strings
  that validation of an explicitly given value accepts.
\<close>

type_synonym StyleId = int

definition StyleType :: "string list" where
  "StyleType = [''talk'', ''singing_teacher'', ''frame_decode'', ''sing'']"

text \<open>
  \<^verbatim>\<open>class SpeakerStyle(BaseModel)\<close> with the fields \<^verbatim>\<open>name\<close>, \<^verbatim>\<open>id\<close> and
  \<^verbatim>\<open>type\<close> (prefixed here, \<open>id\<close> being the identity function of HOL).
\<close>

record SpeakerStyle =
  style_name :: string
  style_id :: StyleId
  style_type :: string

text \<open>
  Construction of a \<^verbatim>\<open>SpeakerStyle\<close>. \<^verbatim>\<open>name\<close> and \<^verbatim>\<open>id\<close> are required;
  \<^verbatim>\<open>type\<close> is declared \<^verbatim>\<open>Field(default="talk", ...)\<close>, so an omitted argument
  (\<open>None\<close> here) takes the default as it is, and a given one is validated against the
  \<^verbatim>\<open>Literal\<close>; a value outside it is rejected (\<open>None\<close> as result: the validation error).
\<close>

definition SpeakerStyle_init :: "string \<Rightarrow> StyleId \<Rightarrow> string option \<Rightarrow> SpeakerStyle option" where
  "SpeakerStyle_init n i t =
     (case t of
        None \<Rightarrow> Some \<lparr>style_name = n, style_id = i, style_type = ''talk''\<rparr>
      | Some ty \<Rightarrow>
          if ty \<in> set StyleType
          then Some \<lparr>style_name = n, style_id = i, style_type = ty\<rparr>
          else None)"

text \<open>\<^verbatim>\<open>class SpeakerSupportedFeatures(BaseModel)\<close>; its one field defaults to \<^verbatim>\<open>"ALL"\<close>.\<close>

record SpeakerSupportedFeatures =
  permitted_synthesis_morphing :: string

text \<open>\<^verbatim>\<open>class Speaker(BaseModel)\<close>: name, speaker\_uuid, styles, version, supported\_features.\<close>

record Speaker =
  speaker_name :: string
  speaker_uuid :: string
  styles :: "SpeakerStyle list"
  speaker_version :: string
  speaker_supported_features :: SpeakerSupportedFeatures

text \<open>\<^verbatim>\<open>class StyleInfo(BaseModel)\<close>: id, icon, portrait (optional), voice\_samples.\<close>

record StyleInfo =
  info_id :: StyleId
  icon :: string
  style_portrait :: "string option"
  voice_samples :: "string list"

text \<open>\<^verbatim>\<open>class SpeakerInfo(BaseModel)\<close>: policy, portrait, style\_infos.\<close>

record SpeakerInfo =
  policy :: string
  portrait :: string
  style_infos :: "StyleInfo list"


section \<open>Collaborators of the router: voicevox\_engine/app/routers/character.py\<close>

text \<open>
  \<^verbatim>\<open>Character\<close> is imported from \<^verbatim>\<open>voicevox_engine.metas.MetasStore\<close>. The router reads
  the attributes \<^verbatim>\<open>name\<close>, \<^verbatim>\<open>uuid\<close>, \<^verbatim>\<open>talk_styles\<close>, \<^verbatim>\<open>sing_styles\<close>,
  \<^verbatim>\<open>version\<close> and \<^verbatim>\<open>supported_features\<close> of it.
\<close>

record Character =
  character_name :: string
  uuid :: string
  talk_styles :: "SpeakerStyle list"
  sing_styles :: "SpeakerStyle list"
  character_version :: string
  character_supported_features :: SpeakerSupportedFeatures

text \<open>
  Exceptions as values. \<open>HTTPException\<close> carries its status code and
  \<open>ResourceManagerError\<close> is the class the router catches; \<open>UnknownVersion\<close>,
  \<open>UnknownCharacter\<close> and \<open>AssetUnreadable\<close> are the failures the specification names
  for the core registry and the metadata resolver.
\<close>

datatype error =
    HTTPException nat
  | ResourceManagerError
  | UnknownVersion
  | UnknownCharacter
  | AssetUnreadable

text \<open>
  A call into a collaborator may raise and may change the state of the process (the
  resource manager's tables), so it maps the state before the call to its outcome and the
  state after it. An exception leaves the state as it was when it was raised.
\<close>

type_synonym ('s, 'a) act = "'s \<Rightarrow> (error + 'a) \<times> 's"

definition result :: "'a \<Rightarrow> ('s, 'a) act" where
  "result a = (\<lambda>s. (Inr a, s))"

definition raise :: "error \<Rightarrow> ('s, 'a) act" where
  "raise e = (\<lambda>s. (Inl e, s))"

text \<open>Sequencing of two statements: the second runs only when the first has not raised.\<close>

definition then_do :: "('s, 'a) act \<Rightarrow> ('a \<Rightarrow> ('s, 'b) act) \<Rightarrow> ('s, 'b) act" where
  "then_do m f = (\<lambda>s. case m s of (Inl e, s') \<Rightarrow> (Inl e, s') | (Inr a, s') \<Rightarrow> f a s')"

text \<open>
  Python's \<^verbatim>\<open>core_version or f()\<close> on a parameter of type \<^verbatim>\<open>str | None\<close>: the right
  operand is evaluated exactly when the left one is falsy, that is \<^verbatim>\<open>None\<close> or the
  empty string.
\<close>

definition py_or :: "string option \<Rightarrow> ('s, string) act \<Rightarrow> ('s, string) act" where
  "py_or x f = (case x of None \<Rightarrow> f | Some v \<Rightarrow> if v = [] then f else result v)"

text \<open>A core, as far as the router reads it: \<^verbatim>\<open>core.characters\<close>.\<close>

record 'cc Core =
  characters :: "'cc list"

text \<open>
  The three objects the router is generated from, each with the methods the router calls:
  \<^verbatim>\<open>core_manager.latest_version()\<close>, \<^verbatim>\<open>core_manager.get_core(version)\<close>,
  \<^verbatim>\<open>metas_store.talk_characters(core_characters)\<close>,
  \<^verbatim>\<open>metas_store.sing_characters(core_characters)\<close>,
  \<^verbatim>\<open>metas_store.character_info(character_uuid, talk_or_sing, core_characters,
  resource_baseurl, resource_format)\<close> and \<^verbatim>\<open>resource_manager.resource_path(hash)\<close>.
\<close>

datatype TalkOrSing = Talk | Sing

datatype ResourceFormat = Base64 | Url

type_synonym path = string

record ('s, 'cc) CoreManager =
  latest_version :: "('s, string) act"
  get_core :: "string \<Rightarrow> ('s, 'cc Core) act"

record ('s, 'cc) MetasStore =
  talk_characters :: "'cc list \<Rightarrow> ('s, Character list) act"
  sing_characters :: "'cc list \<Rightarrow> ('s, Character list) act"
  character_info ::
    "string \<Rightarrow> TalkOrSing \<Rightarrow> 'cc list \<Rightarrow> string \<Rightarrow> ResourceFormat \<Rightarrow> ('s, SpeakerInfo) act"

record 's ResourceManager =
  resource_path :: "string \<Rightarrow> ('s, path) act"


section \<open>The router\<close>

definition RESOURCE_ENDPOINT :: string where
  "RESOURCE_ENDPOINT = ''_resources''"

text \<open>\<^verbatim>\<open>_get_resource_baseurl\<close>, from the scheme and the netloc of the request's URL.\<close>

definition get_resource_baseurl :: "string \<Rightarrow> string \<Rightarrow> string" where
  "get_resource_baseurl scheme netloc = scheme @ ''://'' @ netloc @ ''/'' @ RESOURCE_ENDPOINT"

text \<open>\<^verbatim>\<open>_characters_to_speakers\<close>: one \<^verbatim>\<open>Speaker\<close> for each character, in order.\<close>

definition characters_to_speakers :: "Character list \<Rightarrow> Speaker list" where
  "characters_to_speakers cs =
     map (\<lambda>character.
            \<lparr>speaker_name = character_name character,
             speaker_uuid = uuid character,
             styles = talk_styles character @ sing_styles character,
             speaker_version = character_version character,
             speaker_supported_features = character_supported_features character\<rparr>) cs"

text \<open>\<^verbatim>\<open>GET /speakers\<close>; \<open>core_version = None\<close> is the omitted parameter.\<close>

definition speakers ::
  "('s, 'cc) CoreManager \<Rightarrow> ('s, 'cc) MetasStore \<Rightarrow> string option \<Rightarrow> ('s, Speaker list) act" where
  "speakers core_manager metas_store core_version =
     then_do (py_or core_version (latest_version core_manager)) (\<lambda>version.
     then_do (get_core core_manager version) (\<lambda>core.
     then_do (talk_characters metas_store (characters core)) (\<lambda>cs.
     result (characters_to_speakers cs))))"

text \<open>
  \<^verbatim>\<open>GET /speaker_info\<close>; \<open>resource_format = None\<close> is the omitted parameter, whose
  default is \<^verbatim>\<open>"base64"\<close>.
\<close>

definition speaker_info ::
  "('s, 'cc) CoreManager \<Rightarrow> ('s, 'cc) MetasStore \<Rightarrow> string \<Rightarrow> string \<Rightarrow>
   ResourceFormat option \<Rightarrow> string option \<Rightarrow> ('s, SpeakerInfo) act" where
  "speaker_info core_manager metas_store resource_baseurl speaker_uuid' resource_format core_version =
     then_do (py_or core_version (latest_version core_manager)) (\<lambda>version.
     then_do (get_core core_manager version) (\<lambda>core.
     character_info metas_store speaker_uuid' Talk (characters core) resource_baseurl
       (case resource_format of None \<Rightarrow> Base64 | Some f \<Rightarrow> f)))"

text \<open>\<^verbatim>\<open>GET /singers\<close>.\<close>

definition singers ::
  "('s, 'cc) CoreManager \<Rightarrow> ('s, 'cc) MetasStore \<Rightarrow> string option \<Rightarrow> ('s, Speaker list) act" where
  "singers core_manager metas_store core_version =
     then_do (py_or core_version (latest_version core_manager)) (\<lambda>version.
     then_do (get_core core_manager version) (\<lambda>core.
     then_do (sing_characters metas_store (characters core)) (\<lambda>cs.
     result (characters_to_speakers cs))))"

text \<open>\<^verbatim>\<open>GET /singer_info\<close>.\<close>

definition singer_info ::
  "('s, 'cc) CoreManager \<Rightarrow> ('s, 'cc) MetasStore \<Rightarrow> string \<Rightarrow> string \<Rightarrow>
   ResourceFormat option \<Rightarrow> string option \<Rightarrow> ('s, SpeakerInfo) act" where
  "singer_info core_manager metas_store resource_baseurl speaker_uuid' resource_format core_version =
     then_do (py_or core_version (latest_version core_manager)) (\<lambda>version.
     then_do (get_core core_manager version) (\<lambda>core.
     character_info metas_store speaker_uuid' Sing (characters core) resource_baseurl
       (case resource_format of None \<Rightarrow> Base64 | Some f \<Rightarrow> f)))"

text \<open>
  \<^verbatim>\<open>FileResponse(resource_path, headers={...})\<close>: the path of the file to send and the
  extra headers.
\<close>

record FileResponse =
  fr_path :: path
  fr_headers :: "(string \<times> string) list"

text \<open>
  \<^verbatim>\<open>GET /_resources/{resource_hash}\<close>: a \<^verbatim>\<open>ResourceManagerError\<close> of the lookup
  becomes \<^verbatim>\<open>HTTPException(status_code=404)\<close>, any other exception passes through.
\<close>

definition resources :: "'s ResourceManager \<Rightarrow> string \<Rightarrow> ('s, FileResponse) act" where
  "resources resource_manager resource_hash =
     (\<lambda>s. case resource_path resource_manager resource_hash s of
             (Inl e, s') \<Rightarrow>
               (case e of
                  ResourceManagerError \<Rightarrow> (Inl (HTTPException 404), s')
                | _ \<Rightarrow> (Inl e, s'))
           | (Inr p, s') \<Rightarrow>
               (Inr \<lparr>fr_path = p, fr_headers = [(''Cache-Control'', ''max-age=2592000'')]\<rparr>, s'))"


text \<open>
  What the framework does with a \<^verbatim>\<open>FileResponse\<close>: it sends the content of the file at
  \<open>fr_path\<close>, read from the file system (a partial map from paths to contents) when the
  response goes out; \<open>None\<close> when there is no such file.
\<close>

type_synonym bytes = string

definition FileResponse_body :: "(path \<rightharpoonup> bytes) \<Rightarrow> FileResponse \<Rightarrow> bytes option" where
  "FileResponse_body fs r = fs (fr_path r)"

text \<open>
  Reading a \<^verbatim>\<open>Cache-Control: max-age=N\<close> header back as the number \<open>N\<close> of seconds.
\<close>

definition digit_of :: "char \<Rightarrow> nat option" where
  "digit_of c =
     map_of [(CHR ''0'', 0), (CHR ''1'', 1), (CHR ''2'', 2), (CHR ''3'', 3), (CHR ''4'', 4),
             (CHR ''5'', 5), (CHR ''6'', 6), (CHR ''7'', 7), (CHR ''8'', 8), (CHR ''9'', 9)] c"

fun decimal :: "nat \<Rightarrow> string \<Rightarrow> nat option" where
  "decimal acc [] = Some acc"
| "decimal acc (c # cs) =
     (case digit_of c of None \<Rightarrow> None | Some d \<Rightarrow> decimal (10 * acc + d) cs)"

definition max_age :: "FileResponse \<Rightarrow> nat option" where
  "max_age r =
     (case map_of (fr_headers r) ''Cache-Control'' of
        None \<Rightarrow> None
      | Some v \<Rightarrow>
          if take 8 v = ''max-age='' \<and> drop 8 v \<noteq> [] then decimal 0 (drop 8 v) else None)"


section \<open>The core registry\<close>

text \<open>
  Modelled from the spec: the class \<^verbatim>\<open>CoreManager\<close> of
  \<^verbatim>\<open>voicevox_engine.core.core_initializer\<close> is not among the sources. The registry
  "tracks one or more loaded voice-synthesis cores", each with a version and a fixed
  character list, and "defines a total order over loaded versions".
\<close>

record 'cc Registry =
  first_loaded :: "string \<times> 'cc Core"
  more_loaded :: "(string \<times> 'cc Core) list"
  version_le :: "string \<Rightarrow> string \<Rightarrow> bool"

text \<open>
  Modelled from the spec: the loaded cores of the absent \<^verbatim>\<open>CoreManager\<close> with their
  versions, "one or more", and the versions alone.
\<close>

definition loaded :: "'cc Registry \<Rightarrow> (string \<times> 'cc Core) list" where
  "loaded reg = first_loaded reg # more_loaded reg"

definition loaded_versions :: "'cc Registry \<Rightarrow> string list" where
  "loaded_versions reg = map fst (loaded reg)"

text \<open>
  Modelled from the spec: \<^verbatim>\<open>CoreManager.latest_version\<close>, absent from the sources. The
  registry "exposes the maximum" of its order over the loaded versions.
\<close>

definition latest :: "'cc Registry \<Rightarrow> string" where
  "latest reg =
     fold (\<lambda>v m. if version_le reg m v then v else m)
       (map fst (more_loaded reg)) (fst (first_loaded reg))"

text \<open>
  The order of the registry is "a total order over loaded versions": any two loaded
  versions are comparable, and on them the order is antisymmetric and transitive.
\<close>

definition total_order_on_loaded :: "'cc Registry \<Rightarrow> bool" where
  "total_order_on_loaded reg =
     (\<forall>a \<in> set (loaded_versions reg). \<forall>b \<in> set (loaded_versions reg).
        (version_le reg a b \<or> version_le reg b a) \<and>
        (version_le reg a b \<and> version_le reg b a \<longrightarrow> a = b) \<and>
        (\<forall>c \<in> set (loaded_versions reg).
           version_le reg a b \<and> version_le reg b c \<longrightarrow> version_le reg a c))"

text \<open>
  Modelled from the spec: \<^verbatim>\<open>CoreManager.get_core\<close>, absent from the sources. It "fails
  with \<open>UnknownVersion\<close> if a non-absent version does not match any loaded core", and has
  no side effect.
\<close>

definition registry_get_core :: "'cc Registry \<Rightarrow> string \<Rightarrow> ('s, 'cc Core) act" where
  "registry_get_core reg version =
     (case map_of (loaded reg) version of
        None \<Rightarrow> raise UnknownVersion
      | Some core \<Rightarrow> result core)"

text \<open>
  Modelled from the spec: the absent \<^verbatim>\<open>CoreManager\<close> as the router sees it, with the two
  methods above.
\<close>

definition registry_manager :: "'cc Registry \<Rightarrow> ('s, 'cc) CoreManager" where
  "registry_manager reg =
     \<lparr>latest_version = result (latest reg), get_core = registry_get_core reg\<rparr>"


section \<open>The resource store\<close>

text \<open>
  Modelled from the spec: the class \<^verbatim>\<open>ResourceManager\<close> of
  \<^verbatim>\<open>voicevox_engine.resource_manager\<close> is not among the sources. Its state is the map
  from handles to paths, which "only grows (inserts), never updates or deletes existing
  entries".
\<close>

type_synonym store = "string \<rightharpoonup> path"

text \<open>
  Modelled from the spec: \<^verbatim>\<open>ResourceManager.resource_path\<close>, absent from the sources:
  "\<open>resolve(handle) \<rightarrow> path\<close>: fails with \<open>UnknownResource\<close> if the handle was never
  registered in this process". \<open>UnknownResource\<close> is the \<^verbatim>\<open>ResourceManagerError\<close> that
  the router catches.
\<close>

definition resolve :: "string \<Rightarrow> (store, path) act" where
  "resolve h = (\<lambda>st. case st h of None \<Rightarrow> (Inl ResourceManagerError, st) | Some p \<Rightarrow> (Inr p, st))"

text \<open>
  Modelled from the spec: the absent \<^verbatim>\<open>ResourceManager\<close> as the router sees it.
\<close>

definition store_manager :: "store ResourceManager" where
  "store_manager = \<lparr>resource_path = resolve\<rparr>"

text \<open>
  Modelled from the spec: registration, absent from the sources: "\<open>register(path) \<rightarrow>
  handle\<close>: computes a deterministic handle from the file's content (not its path)", and
  "fails with \<open>AssetUnreadable\<close> if the source file cannot be read". The hash function is a
  parameter; an entry that exists is kept.
\<close>

definition register :: "(path \<rightharpoonup> bytes) \<Rightarrow> (bytes \<Rightarrow> string) \<Rightarrow> path \<Rightarrow> (store, string) act" where
  "register fs hash p =
     (\<lambda>st. case fs p of
              None \<Rightarrow> (Inl AssetUnreadable, st)
            | Some content \<Rightarrow>
                (Inr (hash content),
                 case st (hash content) of None \<Rightarrow> st(hash content \<mapsto> p) | Some q \<Rightarrow> st))"

text \<open>
  Modelled from the spec: the history of the absent \<^verbatim>\<open>ResourceManager\<close>, a run of
  successive \<open>register\<close> calls on a store, with the handles they returned to their
  callers; a call that fails returns no handle and leaves the store as it was.
\<close>

fun register_each ::
  "(path \<rightharpoonup> bytes) \<Rightarrow> (bytes \<Rightarrow> string) \<Rightarrow> path list \<Rightarrow> store \<Rightarrow> string list \<times> store" where
  "register_each fs hash [] st = ([], st)"
| "register_each fs hash (p # ps) st =
     (case register fs hash p st of
        (Inl e, st') \<Rightarrow> register_each fs hash ps st'
      | (Inr h, st') \<Rightarrow> (case register_each fs hash ps st' of (hs, st'') \<Rightarrow> (h # hs, st'')))"


section \<open>The metadata resolver\<close>

text \<open>
  Modelled from the spec: the class \<^verbatim>\<open>MetasStore\<close> of
  \<^verbatim>\<open>voicevox_engine.metas.MetasStore\<close> is not among the sources. What the resolver is
  built on: the file system, the hash function of the resource store, the base64 encoder,
  and the assets found for each character (policy text, portrait) and for each style (icon,
  optional portrait, voice samples).
\<close>

record Resolver =
  files :: "path \<rightharpoonup> bytes"
  content_hash :: "bytes \<Rightarrow> string"
  b64encode :: "bytes \<Rightarrow> string"
  policy_text :: "string \<Rightarrow> string"
  portrait_file :: "string \<Rightarrow> path"
  icon_file :: "StyleId \<Rightarrow> path"
  style_portrait_file :: "StyleId \<Rightarrow> path option"
  voice_sample_files :: "StyleId \<Rightarrow> path list"

text \<open>
  Modelled from the spec: the capability test of \<^verbatim>\<open>MetasStore\<close>, absent from the
  sources: "\<open>talk\<close> \<open>\<Rightarrow>\<close> non-empty \<open>talk_styles\<close>, \<open>sing\<close> \<open>\<Rightarrow>\<close> non-empty \<open>sing_styles\<close>".
\<close>

definition has_capability :: "TalkOrSing \<Rightarrow> Character \<Rightarrow> bool" where
  "has_capability cap c = (case cap of Talk \<Rightarrow> talk_styles c \<noteq> [] | Sing \<Rightarrow> sing_styles c \<noteq> [])"

text \<open>
  Modelled from the spec: \<^verbatim>\<open>MetasStore.talk_characters\<close> and
  \<^verbatim>\<open>MetasStore.sing_characters\<close>, absent from the sources: the listing "filters the
  core's character set to those having at least one style for the requested capability",
  "order preserved as stored in the core", and does not trim the styles of a character.
\<close>

definition list_characters :: "TalkOrSing \<Rightarrow> Character list \<Rightarrow> ('s, Character list) act" where
  "list_characters cap cs = result (filter (has_capability cap) cs)"

text \<open>
  Modelled from the spec: the resolution of one resource reference, absent from the
  sources: it "reads file bytes and base64-encodes them inline, when \<open>resource_format =
  base64\<close>", or "registers the file with the Resource Store and emits
  \<open>{resource_baseurl}/{handle}\<close> when \<open>resource_format = url\<close>"; an unreadable file fails
  with \<open>AssetUnreadable\<close> in both.
\<close>

definition resolve_resource :: "Resolver \<Rightarrow> string \<Rightarrow> ResourceFormat \<Rightarrow> path \<Rightarrow> (store, string) act" where
  "resolve_resource r baseurl fmt p =
     (case fmt of
        Base64 \<Rightarrow>
          (case files r p of
             None \<Rightarrow> raise AssetUnreadable
           | Some content \<Rightarrow> result (b64encode r content))
      | Url \<Rightarrow>
          then_do (register (files r) (content_hash r) p) (\<lambda>h. result (baseurl @ ''/'' @ h)))"

text \<open>
  Modelled from the spec: the resolution of an "ordered sequence of resolved resource
  references", absent from the sources: one after the other, the first failure failing
  the whole.
\<close>

fun resolve_resources ::
  "Resolver \<Rightarrow> string \<Rightarrow> ResourceFormat \<Rightarrow> path list \<Rightarrow> (store, string list) act" where
  "resolve_resources r baseurl fmt [] = result []"
| "resolve_resources r baseurl fmt (p # ps) =
     then_do (resolve_resource r baseurl fmt p) (\<lambda>x.
     then_do (resolve_resources r baseurl fmt ps) (\<lambda>xs.
     result (x # xs)))"

text \<open>
  Modelled from the spec: the detail of one style, absent from the sources: "\<open>id\<close>,
  \<open>icon\<close> (resolved resource reference, required), \<open>portrait\<close> (resolved resource
  reference, optional), \<open>voice_samples\<close> (ordered sequence of resolved resource
  references, zero or more)".
\<close>

definition style_detail :: "Resolver \<Rightarrow> string \<Rightarrow> ResourceFormat \<Rightarrow> SpeakerStyle \<Rightarrow> (store, StyleInfo) act" where
  "style_detail r baseurl fmt style =
     then_do (resolve_resource r baseurl fmt (icon_file r (style_id style))) (\<lambda>ic.
     then_do (case style_portrait_file r (style_id style) of
                None \<Rightarrow> result None
              | Some p \<Rightarrow> then_do (resolve_resource r baseurl fmt p) (\<lambda>x. result (Some x))) (\<lambda>po.
     then_do (resolve_resources r baseurl fmt (voice_sample_files r (style_id style))) (\<lambda>vs.
     result \<lparr>info_id = style_id style, icon = ic, style_portrait = po, voice_samples = vs\<rparr>)))"

text \<open>
  Modelled from the spec: the "ordered sequence of \<open>StyleDetail\<close>", absent from the
  sources: the details of the styles in their order, the first failure failing the whole.
\<close>

fun style_details ::
  "Resolver \<Rightarrow> string \<Rightarrow> ResourceFormat \<Rightarrow> SpeakerStyle list \<Rightarrow> (store, StyleInfo list) act" where
  "style_details r baseurl fmt [] = result []"
| "style_details r baseurl fmt (style # rest) =
     then_do (style_detail r baseurl fmt style) (\<lambda>x.
     then_do (style_details r baseurl fmt rest) (\<lambda>xs.
     result (x # xs)))"

text \<open>
  Modelled from the spec: \<^verbatim>\<open>MetasStore.character_info\<close>, absent from the sources:
  \<open>character_detail\<close> "fails with \<open>UnknownCharacter\<close> if no character in the core's set
  has the given \<open>uuid\<close> for the requested capability"; on success the policy is plain
  text, the portrait is resolved, and the style details follow "the character's style
  ordering, filtered to only the styles belonging to the requested capability". A failed
  resolution fails the whole call.
\<close>

definition character_detail ::
  "Resolver \<Rightarrow> string \<Rightarrow> TalkOrSing \<Rightarrow> Character list \<Rightarrow> string \<Rightarrow> ResourceFormat \<Rightarrow>
   (store, SpeakerInfo) act" where
  "character_detail r u cap cs baseurl fmt =
     (case find (\<lambda>c. uuid c = u \<and> has_capability cap c) cs of
        None \<Rightarrow> raise UnknownCharacter
      | Some c \<Rightarrow>
          then_do (resolve_resource r baseurl fmt (portrait_file r (uuid c))) (\<lambda>po.
          then_do (style_details r baseurl fmt
                     (case cap of Talk \<Rightarrow> talk_styles c | Sing \<Rightarrow> sing_styles c)) (\<lambda>sis.
          result \<lparr>policy = policy_text r (uuid c), portrait = po, style_infos = sis\<rparr>)))"

text \<open>
  Modelled from the spec: the absent \<^verbatim>\<open>MetasStore\<close> as the router sees it.
\<close>

definition resolver_store :: "Resolver \<Rightarrow> (store, Character) MetasStore" where
  "resolver_store r =
     \<lparr>talk_characters = list_characters Talk,
      sing_characters = list_characters Sing,
      character_info = character_detail r\<rparr>"

text \<open>
  Modelled from the spec: the resource references of a character's detail under a
  capability, that is the paths \<open>character_detail\<close> resolves: the portrait, then for each
  style of the capability the icon, the portrait if there is one, and the voice samples.
\<close>

definition style_paths :: "Resolver \<Rightarrow> SpeakerStyle \<Rightarrow> path list" where
  "style_paths r style =
     icon_file r (style_id style)
       # (case style_portrait_file r (style_id style) of None \<Rightarrow> [] | Some p \<Rightarrow> [p])
       @ voice_sample_files r (style_id style)"

definition character_paths :: "Resolver \<Rightarrow> TalkOrSing \<Rightarrow> Character \<Rightarrow> path list" where
  "character_paths r cap c =
     portrait_file r (uuid c)
       # concat (map (style_paths r) (case cap of Talk \<Rightarrow> talk_styles c | Sing \<Rightarrow> sing_styles c))"


section \<open>A concrete scenario\<close>

text \<open>
  The scenario of the specification, extended: the latest core has the character of uuid
  \<open>abc\<close>, with one talk style \<open>{id: 0, name: Normal, type: talk}\<close> and no sing style,
  and a character of uuid \<open>xyz\<close> with one talk style and one sing style; an older core
  with no character is loaded beside it.
\<close>

definition normal_style :: SpeakerStyle where
  "normal_style = \<lparr>style_name = ''Normal'', style_id = 0, style_type = ''talk''\<rparr>"

definition abc :: Character where
  "abc = \<lparr>character_name = ''Abc'', uuid = ''abc'', talk_styles = [normal_style],
          sing_styles = [], character_version = ''0.0.1'',
          character_supported_features = \<lparr>permitted_synthesis_morphing = ''ALL''\<rparr>\<rparr>"

definition xyz :: Character where
  "xyz = \<lparr>character_name = ''Xyz'', uuid = ''xyz'',
          talk_styles = [\<lparr>style_name = ''Normal'', style_id = 1, style_type = ''talk''\<rparr>],
          sing_styles = [\<lparr>style_name = ''Song'', style_id = 2, style_type = ''sing''\<rparr>],
          character_version = ''0.0.1'',
          character_supported_features = \<lparr>permitted_synthesis_morphing = ''ALL''\<rparr>\<rparr>"

definition abc_core :: "Character Core" where
  "abc_core = \<lparr>characters = [abc, xyz]\<rparr>"

definition old_core :: "Character Core" where
  "old_core = \<lparr>characters = []\<rparr>"

definition abc_registry :: "Character Registry" where
  "abc_registry =
     \<lparr>first_loaded = (''0.14.0'', old_core), more_loaded = [(''0.15.0'', abc_core)],
      version_le = (\<lambda>a b. a = b \<or> (a = ''0.14.0'' \<and> b = ''0.15.0''))\<rparr>"

text \<open>
  The assets: a portrait for each of the two characters, and one icon and one voice sample
  that every style shares; no style has a portrait of its own. Each file is readable.
\<close>

definition abc_files :: "path \<rightharpoonup> bytes" where
  "abc_files = [''abc/portrait.png'' \<mapsto> ''P'', ''xyz/portrait.png'' \<mapsto> ''Q'',
                ''abc/icons/0.png'' \<mapsto> ''I'', ''abc/voice_samples/0_001.wav'' \<mapsto> ''V'']"

definition abc_resolver :: Resolver where
  "abc_resolver =
     \<lparr>files = abc_files,
      content_hash = (\<lambda>content. ''h'' @ content),
      b64encode = (\<lambda>content. ''b'' @ content),
      policy_text = (\<lambda>u. ''policy''),
      portrait_file = (\<lambda>u. u @ ''/portrait.png''),
      icon_file = (\<lambda>i. ''abc/icons/0.png''),
      style_portrait_file = (\<lambda>i. None),
      voice_sample_files = (\<lambda>i. [''abc/voice_samples/0_001.wav''])\<rparr>"

definition empty_store :: store where
  "empty_store = Map.empty"

text \<open>The store after the portrait of \<open>abc\<close> has been registered.\<close>

definition abc_store :: store where
  "abc_store = [''hP'' \<mapsto> ''abc/portrait.png'']"

text \<open>A metadata store whose every method raises.\<close>

definition failing_store :: "(store, Character) MetasStore" where
  "failing_store =
     \<lparr>talk_characters = (\<lambda>cs. raise UnknownCharacter),
      sing_characters = (\<lambda>cs. raise UnknownCharacter),
      character_info = (\<lambda>u cap cs b fmt. raise AssetUnreadable)\<rparr>"

definition abc_speaker :: Speaker where
  "abc_speaker =
     \<lparr>speaker_name = ''Abc'', speaker_uuid = ''abc'', styles = [normal_style],
      speaker_version = ''0.0.1'',
      speaker_supported_features = \<lparr>permitted_synthesis_morphing = ''ALL''\<rparr>\<rparr>"

definition xyz_speaker :: Speaker where
  "xyz_speaker =
     \<lparr>speaker_name = ''Xyz'', speaker_uuid = ''xyz'',
      styles = [\<lparr>style_name = ''Normal'', style_id = 1, style_type = ''talk''\<rparr>,
                \<lparr>style_name = ''Song'', style_id = 2, style_type = ''sing''\<rparr>],
      speaker_version = ''0.0.1'',
      speaker_supported_features = \<lparr>permitted_synthesis_morphing = ''ALL''\<rparr>\<rparr>"


section \<open>Sequencing and the shared prefix of the four queries\<close>

text \<open>
  The four queries begin with the same two statements,
  \<^verbatim>\<open>version = core_version or core_manager.latest_version()\<close> and
  \<^verbatim>\<open>core = core_manager.get_core(version)\<close>; \<open>resolve_core\<close> names this prefix, the
  core a query is resolved against.
\<close>

definition resolve_core :: "('s, 'cc) CoreManager \<Rightarrow> string option \<Rightarrow> ('s, 'cc Core) act" where
  "resolve_core core_manager core_version =
     then_do (py_or core_version (latest_version core_manager)) (get_core core_manager)"

lemma then_do_result: "then_do (result a) f = f a"
  by (simp add: then_do_def result_def)

lemma then_do_raise: "then_do (raise e) f = raise e"
  by (simp add: then_do_def raise_def)

lemma then_do_assoc: "then_do (then_do m f) g = then_do m (\<lambda>a. then_do (f a) g)"
  by (auto simp: then_do_def fun_eq_iff split: prod.splits sum.splits)

lemma then_do_Inr: "m s = (Inr a, s') \<Longrightarrow> then_do m f s = f a s'"
  by (simp add: then_do_def)

lemma then_do_Inl: "m s = (Inl e, s') \<Longrightarrow> then_do m f s = (Inl e, s')"
  by (simp add: then_do_def)

lemma then_do_returns:
  "then_do m f s = (Inr b, s2) \<Longrightarrow> \<exists>a s1. m s = (Inr a, s1) \<and> f a s1 = (Inr b, s2)"
  by (auto simp: then_do_def split: prod.splits sum.splits)

lemma py_or_None: "py_or None f = f"
  by (simp add: py_or_def)

lemma py_or_empty: "py_or (Some []) f = f"
  by (simp add: py_or_def)

lemma py_or_given: "v \<noteq> [] \<Longrightarrow> py_or (Some v) f = result v"
  by (simp add: py_or_def)

lemma speakers_resolve:
  "speakers cm ms cv =
     then_do (resolve_core cm cv) (\<lambda>core.
     then_do (talk_characters ms (characters core)) (\<lambda>cs. result (characters_to_speakers cs)))"
  by (simp add: speakers_def resolve_core_def then_do_assoc)

lemma singers_resolve:
  "singers cm ms cv =
     then_do (resolve_core cm cv) (\<lambda>core.
     then_do (sing_characters ms (characters core)) (\<lambda>cs. result (characters_to_speakers cs)))"
  by (simp add: singers_def resolve_core_def then_do_assoc)

lemma speaker_info_resolve:
  "speaker_info cm ms b u fmt cv =
     then_do (resolve_core cm cv) (\<lambda>core.
     character_info ms u Talk (characters core) b (case fmt of None \<Rightarrow> Base64 | Some f \<Rightarrow> f))"
  by (simp add: speaker_info_def resolve_core_def then_do_assoc)

lemma singer_info_resolve:
  "singer_info cm ms b u fmt cv =
     then_do (resolve_core cm cv) (\<lambda>core.
     character_info ms u Sing (characters core) b (case fmt of None \<Rightarrow> Base64 | Some f \<Rightarrow> f))"
  by (simp add: singer_info_def resolve_core_def then_do_assoc)


lemmas act_defs = then_do_def result_def raise_def py_or_def

lemmas registry_defs =
  registry_manager_def registry_get_core_def latest_def loaded_def loaded_versions_def

lemmas resolver_defs =
  resolver_store_def list_characters_def has_capability_def character_detail_def
  style_detail_def resolve_resource_def register_def

lemmas scenario_defs =
  abc_registry_def abc_core_def old_core_def abc_def xyz_def normal_style_def
  abc_resolver_def abc_files_def empty_store_def
  abc_speaker_def xyz_speaker_def abc_store_def failing_store_def


section \<open>The scenario, evaluated\<close>

lemma abc_resolve_core:
  "resolve_core (registry_manager abc_registry) None s = (Inr abc_core, s)"
  by (simp add: resolve_core_def act_defs registry_defs scenario_defs)

lemma abc_speakers:
  "speakers (registry_manager abc_registry) (resolver_store abc_resolver) None empty_store
     = (Inr [abc_speaker, xyz_speaker], empty_store)"
  by (simp add: speakers_def characters_to_speakers_def act_defs registry_defs resolver_defs
      scenario_defs)

lemma abc_singers:
  "singers (registry_manager abc_registry) (resolver_store abc_resolver) None empty_store
     = (Inr [xyz_speaker], empty_store)"
  by (simp add: singers_def characters_to_speakers_def act_defs registry_defs resolver_defs
      scenario_defs)


section \<open>The listing queries\<close>

lemma uuid_characters_to_speakers:
  "map speaker_uuid (characters_to_speakers cs) = map uuid cs"
  by (simp add: characters_to_speakers_def comp_def)

lemma styles_characters_to_speakers:
  "map styles (characters_to_speakers cs) = map (\<lambda>c. talk_styles c @ sing_styles c) cs"
  by (simp add: characters_to_speakers_def comp_def)

text \<open>
  Claim C1. Whenever \<open>speakers\<close> or \<open>singers\<close> returns a list, that list is the
  projection, entry by entry and in order, of the characters \<open>cs\<close> that the metadata store
  returned for the resolved core, and the \<open>styles\<close> of each entry are the character's
  \<open>talk_styles\<close> followed by its \<open>sing_styles\<close>. The same projection serves both
  capabilities, whatever the metadata store is.
\<close>

theorem listing_styles:
  "(speakers cm ms cv s = (Inr sps, s') \<longrightarrow>
      (\<exists>core s1 cs. resolve_core cm cv s = (Inr core, s1) \<and>
         talk_characters ms (characters core) s1 = (Inr cs, s') \<and>
         sps = characters_to_speakers cs \<and>
         map speaker_uuid sps = map uuid cs \<and>
         map styles sps = map (\<lambda>c. talk_styles c @ sing_styles c) cs)) \<and>
   (singers cm ms cv s = (Inr sps, s') \<longrightarrow>
      (\<exists>core s1 cs. resolve_core cm cv s = (Inr core, s1) \<and>
         sing_characters ms (characters core) s1 = (Inr cs, s') \<and>
         sps = characters_to_speakers cs \<and>
         map speaker_uuid sps = map uuid cs \<and>
         map styles sps = map (\<lambda>c. talk_styles c @ sing_styles c) cs))"
proof (intro conjI impI)
  assume h: "speakers cm ms cv s = (Inr sps, s')"
  from h obtain core s1 where c: "resolve_core cm cv s = (Inr core, s1)"
    and r: "then_do (talk_characters ms (characters core))
              (\<lambda>cs. result (characters_to_speakers cs)) s1 = (Inr sps, s')"
    unfolding speakers_resolve by (blast dest: then_do_returns)
  from r obtain cs where t: "talk_characters ms (characters core) s1 = (Inr cs, s')"
    and p: "sps = characters_to_speakers cs"
    by (auto dest!: then_do_returns simp: result_def)
  show "\<exists>core s1 cs. resolve_core cm cv s = (Inr core, s1) \<and>
         talk_characters ms (characters core) s1 = (Inr cs, s') \<and>
         sps = characters_to_speakers cs \<and>
         map speaker_uuid sps = map uuid cs \<and>
         map styles sps = map (\<lambda>c. talk_styles c @ sing_styles c) cs"
    using c t p uuid_characters_to_speakers styles_characters_to_speakers by blast
next
  assume h: "singers cm ms cv s = (Inr sps, s')"
  from h obtain core s1 where c: "resolve_core cm cv s = (Inr core, s1)"
    and r: "then_do (sing_characters ms (characters core))
              (\<lambda>cs. result (characters_to_speakers cs)) s1 = (Inr sps, s')"
    unfolding singers_resolve by (blast dest: then_do_returns)
  from r obtain cs where t: "sing_characters ms (characters core) s1 = (Inr cs, s')"
    and p: "sps = characters_to_speakers cs"
    by (auto dest!: then_do_returns simp: result_def)
  show "\<exists>core s1 cs. resolve_core cm cv s = (Inr core, s1) \<and>
         sing_characters ms (characters core) s1 = (Inr cs, s') \<and>
         sps = characters_to_speakers cs \<and>
         map speaker_uuid sps = map uuid cs \<and>
         map styles sps = map (\<lambda>c. talk_styles c @ sing_styles c) cs"
    using c t p uuid_characters_to_speakers styles_characters_to_speakers by blast
qed

text \<open>
  In the scenario both queries return, \<open>xyz\<close> is listed by both, and in both listings its
  styles are its talk style followed by its sing style.
\<close>

theorem listing_styles_witness:
  "speakers (registry_manager abc_registry) (resolver_store abc_resolver) None empty_store
     = (Inr [abc_speaker, xyz_speaker], empty_store) \<and>
   singers (registry_manager abc_registry) (resolver_store abc_resolver) None empty_store
     = (Inr [xyz_speaker], empty_store) \<and>
   (\<exists>cs. [abc_speaker, xyz_speaker] = characters_to_speakers cs \<and>
      map styles [abc_speaker, xyz_speaker] = map (\<lambda>c. talk_styles c @ sing_styles c) cs) \<and>
   (\<exists>cs. [xyz_speaker] = characters_to_speakers cs \<and>
      map styles [xyz_speaker] = map (\<lambda>c. talk_styles c @ sing_styles c) cs) \<and>
   map styles [abc_speaker, xyz_speaker]
     = [talk_styles abc @ sing_styles abc, talk_styles xyz @ sing_styles xyz]"
proof -
  note t = listing_styles [of "registry_manager abc_registry" "resolver_store abc_resolver"
      None empty_store _ empty_store]
  have a: "\<exists>cs. [abc_speaker, xyz_speaker] = characters_to_speakers cs \<and>
      map styles [abc_speaker, xyz_speaker] = map (\<lambda>c. talk_styles c @ sing_styles c) cs"
    using t [of "[abc_speaker, xyz_speaker]"] abc_speakers by blast
  have b: "\<exists>cs. [xyz_speaker] = characters_to_speakers cs \<and>
      map styles [xyz_speaker] = map (\<lambda>c. talk_styles c @ sing_styles c) cs"
    using t [of "[xyz_speaker]"] abc_singers by blast
  have c: "map styles [abc_speaker, xyz_speaker]
      = [talk_styles abc @ sing_styles abc, talk_styles xyz @ sing_styles xyz]"
    by (simp add: scenario_defs)
  show ?thesis by (intro conjI abc_speakers abc_singers a b c)
qed

lemma has_capability_eq:
  "has_capability Talk = (\<lambda>c. talk_styles c \<noteq> [])"
  "has_capability Sing = (\<lambda>c. sing_styles c \<noteq> [])"
  by (simp_all add: fun_eq_iff has_capability_def)

lemma list_characters_store:
  "talk_characters (resolver_store r) cs = result (filter (\<lambda>c. talk_styles c \<noteq> []) cs)"
  "sing_characters (resolver_store r) cs = result (filter (\<lambda>c. sing_styles c \<noteq> []) cs)"
  by (simp_all add: resolver_store_def list_characters_def has_capability_eq)

lemma uuid_listed:
  assumes "distinct (map uuid cs)" and "c \<in> set cs"
  shows "(uuid c \<in> set (map uuid (filter P cs))) = P c"
proof
  assume "uuid c \<in> set (map uuid (filter P cs))"
  then obtain d where d: "d \<in> set cs" "P d" "uuid d = uuid c" by auto
  from assms(1) d(1) assms(2) d(3) have "d = c"
    by (meson distinct_map inj_onD)
  with d(2) show "P c" by simp
next
  assume "P c"
  with assms(2) show "uuid c \<in> set (map uuid (filter P cs))" by auto
qed

text \<open>
  Claim C6. For the core a query is resolved against, \<open>speakers\<close> returns the projection
  of exactly the characters whose \<open>talk_styles\<close> is not empty, and \<open>singers\<close> of exactly
  those whose \<open>sing_styles\<close> is not empty, in the core's order. With uuids unique in the
  core, a character of the core is listed by \<open>speakers\<close> if and only if it has a talk
  style, and by \<open>singers\<close> if and only if it has a sing style.
\<close>

theorem listing_excludes_empty:
  assumes "resolve_core cm cv s = (Inr core, s1)"
  shows "\<exists>ts ss.
     speakers cm (resolver_store r) cv s = (Inr ts, s1) \<and>
     singers cm (resolver_store r) cv s = (Inr ss, s1) \<and>
     ts = characters_to_speakers (filter (\<lambda>c. talk_styles c \<noteq> []) (characters core)) \<and>
     ss = characters_to_speakers (filter (\<lambda>c. sing_styles c \<noteq> []) (characters core)) \<and>
     (distinct (map uuid (characters core)) \<longrightarrow>
        (\<forall>c \<in> set (characters core).
           (uuid c \<in> set (map speaker_uuid ts)) = (talk_styles c \<noteq> []) \<and>
           (uuid c \<in> set (map speaker_uuid ss)) = (sing_styles c \<noteq> [])))"
proof -
  let ?ts = "characters_to_speakers (filter (\<lambda>c. talk_styles c \<noteq> []) (characters core))"
  let ?ss = "characters_to_speakers (filter (\<lambda>c. sing_styles c \<noteq> []) (characters core))"
  note core = then_do_Inr [where m = "resolve_core cm cv", OF assms]
  have t: "speakers cm (resolver_store r) cv s = (Inr ?ts, s1)"
    by (simp add: speakers_resolve core list_characters_store then_do_result)
      (simp add: result_def)
  have g: "singers cm (resolver_store r) cv s = (Inr ?ss, s1)"
    by (simp add: singers_resolve core list_characters_store then_do_result)
      (simp add: result_def)
  have m: "distinct (map uuid (characters core)) \<longrightarrow>
        (\<forall>c \<in> set (characters core).
           (uuid c \<in> set (map speaker_uuid ?ts)) = (talk_styles c \<noteq> []) \<and>
           (uuid c \<in> set (map speaker_uuid ?ss)) = (sing_styles c \<noteq> []))"
    unfolding uuid_characters_to_speakers by (intro impI ballI conjI uuid_listed)
  from t g m show ?thesis by blast
qed

text \<open>
  In the scenario \<open>abc\<close>, with one talk style and no sing style, is listed by \<open>speakers\<close>
  and not by \<open>singers\<close>.
\<close>

theorem listing_excludes_empty_witness:
  "resolve_core (registry_manager abc_registry) None empty_store = (Inr abc_core, empty_store) \<and>
   distinct (map uuid (characters abc_core)) \<and>
   abc \<in> set (characters abc_core) \<and> length (talk_styles abc) = 1 \<and> sing_styles abc = [] \<and>
   (\<exists>ts ss.
     speakers (registry_manager abc_registry) (resolver_store abc_resolver) None empty_store
       = (Inr ts, empty_store) \<and>
     singers (registry_manager abc_registry) (resolver_store abc_resolver) None empty_store
       = (Inr ss, empty_store) \<and>
     uuid abc \<in> set (map speaker_uuid ts) \<and> uuid abc \<notin> set (map speaker_uuid ss))"
proof -
  have d: "distinct (map uuid (characters abc_core))"
    by (simp add: scenario_defs)
  have a: "abc \<in> set (characters abc_core)" "length (talk_styles abc) = 1" "sing_styles abc = []"
    by (simp_all add: scenario_defs)
  from listing_excludes_empty [OF abc_resolve_core, where r = abc_resolver and s = empty_store]
  obtain ts ss where
    r: "speakers (registry_manager abc_registry) (resolver_store abc_resolver) None empty_store
          = (Inr ts, empty_store)"
       "singers (registry_manager abc_registry) (resolver_store abc_resolver) None empty_store
          = (Inr ss, empty_store)"
    and m: "distinct (map uuid (characters abc_core)) \<longrightarrow>
        (\<forall>c \<in> set (characters abc_core).
           (uuid c \<in> set (map speaker_uuid ts)) = (talk_styles c \<noteq> []) \<and>
           (uuid c \<in> set (map speaker_uuid ss)) = (sing_styles c \<noteq> []))"
    by blast
  from m d a(1) have "(uuid abc \<in> set (map speaker_uuid ts)) = (talk_styles abc \<noteq> [])"
    "(uuid abc \<in> set (map speaker_uuid ss)) = (sing_styles abc \<noteq> [])" by blast+
  with a have "uuid abc \<in> set (map speaker_uuid ts)" "uuid abc \<notin> set (map speaker_uuid ss)"
    by auto
  with r have e: "\<exists>ts ss.
     speakers (registry_manager abc_registry) (resolver_store abc_resolver) None empty_store
       = (Inr ts, empty_store) \<and>
     singers (registry_manager abc_registry) (resolver_store abc_resolver) None empty_store
       = (Inr ss, empty_store) \<and>
     uuid abc \<in> set (map speaker_uuid ts) \<and> uuid abc \<notin> set (map speaker_uuid ss)"
    by blast
  show ?thesis by (intro conjI abc_resolve_core d a e)
qed



section \<open>Resolving the core\<close>

lemma fold_max_mem:
  "fold (\<lambda>v m. if le m v then v else m) vs m0 \<in> set (m0 # vs)"
  by (induction vs arbitrary: m0) auto

lemma fold_max_upper:
  assumes tot: "\<And>a b. a \<in> S \<Longrightarrow> b \<in> S \<Longrightarrow> le a b \<or> le b a"
    and tr: "\<And>a b c. a \<in> S \<Longrightarrow> b \<in> S \<Longrightarrow> c \<in> S \<Longrightarrow> le a b \<Longrightarrow> le b c \<Longrightarrow> le a c"
  shows "m0 \<in> S \<Longrightarrow> set vs \<subseteq> S \<Longrightarrow>
         le m0 (fold (\<lambda>v m. if le m v then v else m) vs m0) \<and>
         (\<forall>v \<in> set vs. le v (fold (\<lambda>v m. if le m v then v else m) vs m0))"
proof (induction vs arbitrary: m0)
  case Nil
  from tot [OF Nil(1) Nil(1)] show ?case by simp
next
  case (Cons x xs)
  let ?f = "\<lambda>v m. if le m v then v else m"
  let ?m1 = "?f x m0"
  let ?r = "fold ?f xs ?m1"
  have x: "x \<in> S" and xs: "set xs \<subseteq> S" using Cons.prems(2) by simp_all
  have m1: "?m1 \<in> S" using x Cons.prems(1) by simp
  have r: "?r \<in> S" using fold_max_mem [of le xs ?m1] m1 xs by auto
  from Cons.IH [OF m1 xs] have ih1: "le ?m1 ?r" and ih2: "\<forall>v \<in> set xs. le v ?r"
    by blast+
  have a: "le m0 ?m1"
    using tot [OF Cons.prems(1) Cons.prems(1)] by simp
  have b: "le x ?m1"
    using tot [OF x x] tot [OF Cons.prems(1) x] by auto
  have "le m0 ?r" by (rule tr [OF Cons.prems(1) m1 r a ih1])
  moreover have "le x ?r" by (rule tr [OF x m1 r b ih1])
  ultimately show ?case using ih2 by simp
qed

lemma latest_loaded: "latest reg \<in> set (loaded_versions reg)"
  using fold_max_mem [of "version_le reg" "map fst (more_loaded reg)" "fst (first_loaded reg)"]
  by (simp add: latest_def loaded_versions_def loaded_def)

lemma latest_maximum:
  assumes "total_order_on_loaded reg"
  shows "\<forall>v \<in> set (loaded_versions reg). version_le reg v (latest reg)"
proof -
  let ?S = "set (loaded_versions reg)"
  have tot: "\<And>a b. a \<in> ?S \<Longrightarrow> b \<in> ?S \<Longrightarrow> version_le reg a b \<or> version_le reg b a"
    using assms unfolding total_order_on_loaded_def by blast
  have tr: "\<And>a b c. a \<in> ?S \<Longrightarrow> b \<in> ?S \<Longrightarrow> c \<in> ?S \<Longrightarrow> version_le reg a b \<Longrightarrow>
      version_le reg b c \<Longrightarrow> version_le reg a c"
    using assms unfolding total_order_on_loaded_def by blast
  have m0: "fst (first_loaded reg) \<in> ?S" and vs: "set (map fst (more_loaded reg)) \<subseteq> ?S"
    by (auto simp: loaded_versions_def loaded_def)
  from fold_max_upper [of ?S "version_le reg", OF tot tr m0 vs]
  show ?thesis by (simp add: latest_def loaded_versions_def loaded_def)
qed

lemma latest_core: "\<exists>core. map_of (loaded reg) (latest reg) = Some core"
proof -
  have "latest reg \<in> fst ` set (loaded reg)"
    using latest_loaded [of reg] by (simp add: loaded_versions_def)
  then show ?thesis by (metis map_of_eq_None_iff not_Some_eq)
qed

lemma resolve_core_absent:
  "resolve_core cm None = then_do (latest_version cm) (get_core cm)"
  by (simp add: resolve_core_def py_or_None)

lemma registry_resolve_latest:
  "map_of (loaded reg) (latest reg) = Some core \<Longrightarrow>
   resolve_core (registry_manager reg) None s = (Inr core, s)"
  by (simp add: resolve_core_absent registry_manager_def then_do_def registry_get_core_def
      result_def)

text \<open>
  Claim C3. With \<open>core_version\<close> absent, each of the four queries is resolved against
  the core registered under \<open>latest reg\<close>, which is a loaded version and is above every
  loaded version in the registry's order: what the query returns is what the metadata
  store returns for the characters of that core.
\<close>

theorem absent_version_latest:
  assumes "total_order_on_loaded reg"
  shows "latest reg \<in> set (loaded_versions reg) \<and>
    (\<forall>v \<in> set (loaded_versions reg). version_le reg v (latest reg)) \<and>
    (\<exists>core. map_of (loaded reg) (latest reg) = Some core \<and>
       resolve_core (registry_manager reg) None s = (Inr core, s) \<and>
       speakers (registry_manager reg) ms None s
         = then_do (talk_characters ms (characters core))
             (\<lambda>cs. result (characters_to_speakers cs)) s \<and>
       singers (registry_manager reg) ms None s
         = then_do (sing_characters ms (characters core))
             (\<lambda>cs. result (characters_to_speakers cs)) s \<and>
       speaker_info (registry_manager reg) ms b u fmt None s
         = character_info ms u Talk (characters core) b
             (case fmt of None \<Rightarrow> Base64 | Some f \<Rightarrow> f) s \<and>
       singer_info (registry_manager reg) ms b u fmt None s
         = character_info ms u Sing (characters core) b
             (case fmt of None \<Rightarrow> Base64 | Some f \<Rightarrow> f) s)"
proof -
  from latest_core obtain core where c: "map_of (loaded reg) (latest reg) = Some core"
    by blast
  note r = registry_resolve_latest [OF c, of s]
  note k = then_do_Inr [where m = "resolve_core (registry_manager reg) None", OF r]
  have q: "speakers (registry_manager reg) ms None s
         = then_do (talk_characters ms (characters core))
             (\<lambda>cs. result (characters_to_speakers cs)) s"
       "singers (registry_manager reg) ms None s
         = then_do (sing_characters ms (characters core))
             (\<lambda>cs. result (characters_to_speakers cs)) s"
       "speaker_info (registry_manager reg) ms b u fmt None s
         = character_info ms u Talk (characters core) b
             (case fmt of None \<Rightarrow> Base64 | Some f \<Rightarrow> f) s"
       "singer_info (registry_manager reg) ms b u fmt None s
         = character_info ms u Sing (characters core) b
             (case fmt of None \<Rightarrow> Base64 | Some f \<Rightarrow> f) s"
    by (simp_all only: speakers_resolve singers_resolve speaker_info_resolve
        singer_info_resolve k)
  from c r q have "\<exists>core. map_of (loaded reg) (latest reg) = Some core \<and>
       resolve_core (registry_manager reg) None s = (Inr core, s) \<and>
       speakers (registry_manager reg) ms None s
         = then_do (talk_characters ms (characters core))
             (\<lambda>cs. result (characters_to_speakers cs)) s \<and>
       singers (registry_manager reg) ms None s
         = then_do (sing_characters ms (characters core))
             (\<lambda>cs. result (characters_to_speakers cs)) s \<and>
       speaker_info (registry_manager reg) ms b u fmt None s
         = character_info ms u Talk (characters core) b
             (case fmt of None \<Rightarrow> Base64 | Some f \<Rightarrow> f) s \<and>
       singer_info (registry_manager reg) ms b u fmt None s
         = character_info ms u Sing (characters core) b
             (case fmt of None \<Rightarrow> Base64 | Some f \<Rightarrow> f) s"
    by blast
  with latest_loaded [of reg] latest_maximum [OF assms] show ?thesis by blast
qed

text \<open>
  In the scenario the order is total on the two loaded versions, the latest is
  \<open>0.15.0\<close>, loaded after \<open>0.14.0\<close>, and \<open>speakers\<close> without a version lists the
  characters of that core.
\<close>

lemma abc_total_order: "total_order_on_loaded abc_registry"
  by (simp add: total_order_on_loaded_def loaded_versions_def loaded_def abc_registry_def)

lemma abc_latest: "latest abc_registry = ''0.15.0''"
  by (simp add: latest_def abc_registry_def)

theorem absent_version_latest_witness:
  "total_order_on_loaded abc_registry \<and>
   latest abc_registry = ''0.15.0'' \<and>
   version_le abc_registry ''0.14.0'' (latest abc_registry) \<and>
   map_of (loaded abc_registry) (latest abc_registry) = Some abc_core \<and>
   speakers (registry_manager abc_registry) (resolver_store abc_resolver) None empty_store
     = (Inr [abc_speaker, xyz_speaker], empty_store)"
proof -
  from absent_version_latest [OF abc_total_order, where ms = "resolver_store abc_resolver" and s = empty_store]
  have m: "\<forall>v \<in> set (loaded_versions abc_registry). version_le abc_registry v (latest abc_registry)"
    by blast
  have "''0.14.0'' \<in> set (loaded_versions abc_registry)"
    by (simp add: loaded_versions_def loaded_def abc_registry_def)
  with m have l: "version_le abc_registry ''0.14.0'' (latest abc_registry)" by blast
  have c: "map_of (loaded abc_registry) (latest abc_registry) = Some abc_core"
    by (simp add: abc_latest) (simp add: loaded_def abc_registry_def)
  show ?thesis by (intro conjI abc_total_order abc_latest l c abc_speakers)
qed



lemma resolve_core_empty:
  "resolve_core cm (Some []) = resolve_core cm None"
  by (simp add: resolve_core_def py_or_empty py_or_None)

lemma resolve_core_given:
  "v \<noteq> [] \<Longrightarrow> resolve_core cm (Some v) = get_core cm v"
  by (simp add: resolve_core_def py_or_given then_do_result)

lemma registry_unknown:
  "map_of (loaded reg) v = None \<Longrightarrow> get_core (registry_manager reg) v s = (Inl UnknownVersion, s)"
  by (simp add: registry_manager_def registry_get_core_def raise_def)

text \<open>
  Claim C4, as amended. For every core version that is given, is not the empty string and
  matches no loaded core, each of the four queries fails with \<open>UnknownVersion\<close> and
  leaves the state as it found it. The metadata store \<open>ms\<close> is arbitrary: whatever its
  methods would return, raise or change, none of it shows, so the failure comes before any
  call into the metadata store.
\<close>

theorem unknown_version_fails:
  assumes "v \<noteq> []" and "map_of (loaded reg) v = None"
  shows "speakers (registry_manager reg) ms (Some v) s = (Inl UnknownVersion, s) \<and>
         singers (registry_manager reg) ms (Some v) s = (Inl UnknownVersion, s) \<and>
         speaker_info (registry_manager reg) ms b u fmt (Some v) s = (Inl UnknownVersion, s) \<and>
         singer_info (registry_manager reg) ms b u fmt (Some v) s = (Inl UnknownVersion, s)"
proof -
  have r: "resolve_core (registry_manager reg) (Some v) s = (Inl UnknownVersion, s)"
    by (simp add: resolve_core_given [OF assms(1)] registry_unknown [OF assms(2)])
  note k = then_do_Inl [where m = "resolve_core (registry_manager reg) (Some v)", OF r]
  show ?thesis
    by (simp only: speakers_resolve singers_resolve speaker_info_resolve
        singer_info_resolve k simp_thms)
qed

text \<open>
  With the version \<open>9.9.9\<close>, which is not loaded, the queries fail with \<open>UnknownVersion\<close>
  even on the metadata store that always raises; with the loaded version \<open>0.15.0\<close> it is
  the exception of that store that comes out.
\<close>

theorem unknown_version_fails_witness:
  "''9.9.9'' \<noteq> [] \<and> map_of (loaded abc_registry) ''9.9.9'' = None \<and>
   speakers (registry_manager abc_registry) failing_store (Some ''9.9.9'') empty_store
     = (Inl UnknownVersion, empty_store) \<and>
   singer_info (registry_manager abc_registry) failing_store ''http://h/_resources''
     ''abc'' (Some Url) (Some ''9.9.9'') empty_store = (Inl UnknownVersion, empty_store) \<and>
   speakers (registry_manager abc_registry) failing_store (Some ''0.15.0'') empty_store
     = (Inl UnknownCharacter, empty_store)"
proof -
  have n: "''9.9.9'' \<noteq> []" by simp
  have m: "map_of (loaded abc_registry) ''9.9.9'' = None"
    by (simp add: loaded_def abc_registry_def)
  from unknown_version_fails [OF n m, where ms = failing_store
      and s = empty_store and b = "''http://h/_resources''" and u = "''abc''" and fmt = "Some Url"]
  have a: "speakers (registry_manager abc_registry) failing_store (Some ''9.9.9'') empty_store
     = (Inl UnknownVersion, empty_store)"
    "singer_info (registry_manager abc_registry) failing_store ''http://h/_resources''
     ''abc'' (Some Url) (Some ''9.9.9'') empty_store = (Inl UnknownVersion, empty_store)"
    by blast+
  have c: "speakers (registry_manager abc_registry) failing_store (Some ''0.15.0'') empty_store
     = (Inl UnknownCharacter, empty_store)"
    by (simp add: speakers_def act_defs registry_defs scenario_defs)
  show ?thesis by (intro conjI n m a c)
qed

text \<open>
  Claim C4 as stated fails at the empty string: it is a given version, it matches no
  loaded core, and \<open>speakers\<close> returns the listing of the latest core.
\<close>

theorem unknown_version_counterexample:
  "Some '''' \<noteq> (None :: string option) \<and>
   map_of (loaded abc_registry) '''' = None \<and>
   speakers (registry_manager abc_registry) (resolver_store abc_resolver) (Some '''') empty_store
     = (Inr [abc_speaker, xyz_speaker], empty_store) \<and>
   fst (speakers (registry_manager abc_registry) (resolver_store abc_resolver) (Some '''')
          empty_store) \<noteq> Inl UnknownVersion"
proof -
  have m: "map_of (loaded abc_registry) '''' = None"
    by (simp add: loaded_def abc_registry_def)
  have e: "speakers (registry_manager abc_registry) (resolver_store abc_resolver) (Some '''')
      empty_store = (Inr [abc_speaker, xyz_speaker], empty_store)"
    by (simp only: speakers_resolve resolve_core_empty)
      (simp only: speakers_resolve [symmetric] abc_speakers)
  show ?thesis using m e by simp
qed


section \<open>The detail queries\<close>

lemma abc_speaker_info_base64:
  "speaker_info (registry_manager abc_registry) (resolver_store abc_resolver)
     ''http://h/_resources'' ''abc'' (Some Base64) None empty_store
   = (Inr \<lparr>policy = ''policy'', portrait = ''bP'',
            style_infos = [\<lparr>info_id = 0, icon = ''bI'', style_portrait = None,
                             voice_samples = [''bV'']\<rparr>]\<rparr>, empty_store)"
  by (simp add: speaker_info_def act_defs registry_defs resolver_defs scenario_defs)

lemma abc_speaker_info_url:
  "fst (speaker_info (registry_manager abc_registry) (resolver_store abc_resolver)
     ''http://h/_resources'' ''abc'' (Some Url) None empty_store)
   = Inr \<lparr>policy = ''policy'', portrait = ''http://h/_resources/hP'',
           style_infos = [\<lparr>info_id = 0, icon = ''http://h/_resources/hI'',
                            style_portrait = None,
                            voice_samples = [''http://h/_resources/hV'']\<rparr>]\<rparr>"
  by code_simp

text \<open>
  Claim C8. With \<open>resource_format\<close> omitted, \<open>speaker_info\<close> and \<open>singer_info\<close> are the
  same queries as with \<open>base64\<close> given: the metadata store is called with \<open>Base64\<close>. In
  the scenario this is not what \<open>url\<close> returns.
\<close>

theorem default_resource_format:
  "speaker_info cm ms b u None cv = speaker_info cm ms b u (Some Base64) cv \<and>
   singer_info cm ms b u None cv = singer_info cm ms b u (Some Base64) cv \<and>
   speaker_info cm ms b u None cv
     = then_do (resolve_core cm cv) (\<lambda>core. character_info ms u Talk (characters core) b Base64) \<and>
   singer_info cm ms b u None cv
     = then_do (resolve_core cm cv) (\<lambda>core. character_info ms u Sing (characters core) b Base64) \<and>
   fst (speaker_info (registry_manager abc_registry) (resolver_store abc_resolver)
          ''http://h/_resources'' ''abc'' (Some Base64) None empty_store)
     \<noteq> fst (speaker_info (registry_manager abc_registry) (resolver_store abc_resolver)
          ''http://h/_resources'' ''abc'' (Some Url) None empty_store)"
proof -
  have d: "fst (speaker_info (registry_manager abc_registry) (resolver_store abc_resolver)
          ''http://h/_resources'' ''abc'' (Some Base64) None empty_store)
     \<noteq> fst (speaker_info (registry_manager abc_registry) (resolver_store abc_resolver)
          ''http://h/_resources'' ''abc'' (Some Url) None empty_store)"
    by (simp add: abc_speaker_info_base64 abc_speaker_info_url)
  show ?thesis
    by (intro conjI d) (simp_all add: speaker_info_resolve singer_info_resolve)
qed

text \<open>In the scenario the omitted format returns the inline encodings.\<close>

theorem default_resource_format_witness:
  "speaker_info (registry_manager abc_registry) (resolver_store abc_resolver)
     ''http://h/_resources'' ''abc'' None None empty_store
   = (Inr \<lparr>policy = ''policy'', portrait = ''bP'',
            style_infos = [\<lparr>info_id = 0, icon = ''bI'', style_portrait = None,
                             voice_samples = [''bV'']\<rparr>]\<rparr>, empty_store)"
proof -
  from default_resource_format [of "registry_manager abc_registry" "resolver_store abc_resolver"
      "''http://h/_resources''" "''abc''" None]
  have "speaker_info (registry_manager abc_registry) (resolver_store abc_resolver)
     ''http://h/_resources'' ''abc'' None None
    = speaker_info (registry_manager abc_registry) (resolver_store abc_resolver)
     ''http://h/_resources'' ''abc'' (Some Base64) None"
    by blast
  with abc_speaker_info_base64 show ?thesis by simp
qed


section \<open>Styles\<close>

text \<open>
  Claim C10. A \<open>SpeakerStyle\<close> constructed without a type has the type \<open>talk\<close>, and every
  \<open>SpeakerStyle\<close> that construction returns has one of the four types of \<open>StyleType\<close>, of
  which \<open>talk\<close> is one.
\<close>

theorem style_type_default:
  "SpeakerStyle_init n i None = Some \<lparr>style_name = n, style_id = i, style_type = ''talk''\<rparr> \<and>
   (SpeakerStyle_init n i t = Some s \<longrightarrow>
      style_type s \<in> set StyleType \<and> (t = None \<longrightarrow> style_type s = ''talk'')) \<and>
   ''talk'' \<in> set StyleType \<and> distinct StyleType \<and> length StyleType = 4"
  by (auto simp: SpeakerStyle_init_def StyleType_def split: option.splits if_splits)

text \<open>
  The style of the scenario is what construction without a type returns; \<open>sing\<close> is
  accepted as a type and \<open>shout\<close> is not.
\<close>

theorem style_type_default_witness:
  "SpeakerStyle_init ''Normal'' 0 None = Some normal_style \<and>
   style_type normal_style \<in> set StyleType \<and>
   style_type normal_style = ''talk'' \<and>
   SpeakerStyle_init ''Song'' 2 (Some ''sing'')
     = Some \<lparr>style_name = ''Song'', style_id = 2, style_type = ''sing''\<rparr> \<and>
   SpeakerStyle_init ''Song'' 2 (Some ''shout'') = None"
proof -
  have a: "SpeakerStyle_init ''Normal'' 0 None = Some normal_style"
    by (simp add: SpeakerStyle_init_def normal_style_def)
  from style_type_default [of "''Normal''" 0 None normal_style] a
  have b: "style_type normal_style \<in> set StyleType" "style_type normal_style = ''talk''"
    by blast+
  have c: "SpeakerStyle_init ''Song'' 2 (Some ''sing'')
     = Some \<lparr>style_name = ''Song'', style_id = 2, style_type = ''sing''\<rparr>"
    "SpeakerStyle_init ''Song'' 2 (Some ''shout'') = None"
    by (simp_all add: SpeakerStyle_init_def StyleType_def)
  show ?thesis by (intro conjI a b c)
qed


section \<open>The resource fetch\<close>

lemma resources_returns:
  "resources rm h s = (Inr r, s') \<Longrightarrow>
   resource_path rm h s = (Inr (fr_path r), s') \<and>
   r = \<lparr>fr_path = fr_path r, fr_headers = [(''Cache-Control'', ''max-age=2592000'')]\<rparr>"
  by (auto simp: resources_def split: prod.splits sum.splits error.splits)

lemma max_age_30_days:
  "max_age \<lparr>fr_path = p, fr_headers = [(''Cache-Control'', ''max-age=2592000'')]\<rparr>
     = Some (30 * 24 * 60 * 60)"
  by (simp add: max_age_def digit_of_def)

text \<open>
  Claim C7. When the fetch succeeds, its response names the path that the resource manager
  resolved the hash to, so that the body sent is the content of the file at that path, and
  its only extra header is \<open>Cache-Control: max-age=2592000\<close>, which is 30 days in seconds.
\<close>

theorem resource_fetch_success:
  assumes "resources rm h s = (Inr r, s')"
  shows "resource_path rm h s = (Inr (fr_path r), s') \<and>
         FileResponse_body fs r = fs (fr_path r) \<and>
         fr_headers r = [(''Cache-Control'', ''max-age=2592000'')] \<and>
         max_age r = Some 2592000 \<and>
         max_age r = Some (30 * 24 * 60 * 60)"
proof -
  from resources_returns [OF assms]
  have p: "resource_path rm h s = (Inr (fr_path r), s')"
    and r: "r = \<lparr>fr_path = fr_path r, fr_headers = [(''Cache-Control'', ''max-age=2592000'')]\<rparr>"
    by blast+
  from r have h: "fr_headers r = [(''Cache-Control'', ''max-age=2592000'')]"
    by (metis FileResponse.select_convs(2))
  from r max_age_30_days [of "fr_path r"] have m: "max_age r = Some (30 * 24 * 60 * 60)"
    by simp
  then have m': "max_age r = Some 2592000" by simp
  show ?thesis using p h m m' by (simp add: FileResponse_body_def)
qed

lemma abc_resources:
  "resources store_manager ''hP'' abc_store
     = (Inr \<lparr>fr_path = ''abc/portrait.png'',
             fr_headers = [(''Cache-Control'', ''max-age=2592000'')]\<rparr>, abc_store)"
  by (simp add: resources_def store_manager_def resolve_def abc_store_def)

text \<open>
  In the scenario the handle of the portrait of \<open>abc\<close> is fetched: the response carries the
  portrait's path, whose content is \<open>P\<close>.
\<close>

theorem resource_fetch_success_witness:
  "resources store_manager ''hP'' abc_store
     = (Inr \<lparr>fr_path = ''abc/portrait.png'',
             fr_headers = [(''Cache-Control'', ''max-age=2592000'')]\<rparr>, abc_store) \<and>
   resource_path store_manager ''hP'' abc_store = (Inr ''abc/portrait.png'', abc_store) \<and>
   FileResponse_body abc_files
     \<lparr>fr_path = ''abc/portrait.png'', fr_headers = [(''Cache-Control'', ''max-age=2592000'')]\<rparr>
     = Some ''P'' \<and>
   max_age \<lparr>fr_path = ''abc/portrait.png'', fr_headers = [(''Cache-Control'', ''max-age=2592000'')]\<rparr>
     = Some 2592000"
proof -
  from resource_fetch_success [OF abc_resources, of abc_files]
  have a: "resource_path store_manager ''hP'' abc_store = (Inr ''abc/portrait.png'', abc_store)"
    and b: "FileResponse_body abc_files
     \<lparr>fr_path = ''abc/portrait.png'', fr_headers = [(''Cache-Control'', ''max-age=2592000'')]\<rparr>
     = abc_files ''abc/portrait.png''"
    and c: "max_age \<lparr>fr_path = ''abc/portrait.png'', fr_headers = [(''Cache-Control'', ''max-age=2592000'')]\<rparr>
     = Some 2592000"
    by simp_all
  have d: "abc_files ''abc/portrait.png'' = Some ''P''"
    by (simp add: abc_files_def)
  show ?thesis using abc_resources a b c d by simp
qed

lemma register_dom:
  "register fs hash p st = (Inr h, st') \<Longrightarrow> dom st' = insert h (dom st)"
  by (auto simp: register_def split: option.splits)

lemma register_fails:
  "register fs hash p st = (Inl e, st') \<Longrightarrow> st' = st \<and> e = AssetUnreadable"
  by (auto simp: register_def split: option.splits)

lemma register_each_dom:
  "register_each fs hash ps st = (hs, st') \<Longrightarrow> dom st' = dom st \<union> set hs"
proof (induction ps arbitrary: st hs st')
  case Nil
  then show ?case by simp
next
  case (Cons p ps)
  show ?case
  proof (cases "register fs hash p st")
    case (Pair o1 st1)
    show ?thesis
    proof (cases o1)
      case (Inl e)
      with Pair Cons.prems have "register_each fs hash ps st1 = (hs, st')" by simp
      from Cons.IH [OF this] register_fails [of fs hash p st e st1] Pair Inl
      show ?thesis by simp
    next
      case (Inr h)
      obtain hs1 st2 where r: "register_each fs hash ps st1 = (hs1, st2)"
        by (cases "register_each fs hash ps st1")
      with Pair Inr Cons.prems have e: "hs = h # hs1" "st' = st2" by simp_all
      from Cons.IH [OF r] register_dom [of fs hash p st h st1] Pair Inr e
      show ?thesis by auto
    qed
  qed
qed

lemma resolve_unissued:
  "st h = None \<Longrightarrow> resources store_manager h st = (Inl (HTTPException 404), st)"
  by (simp add: resources_def store_manager_def resolve_def)

lemma resources_not_found_iff:
  "(fst (resources store_manager h st) = Inl (HTTPException 404))
     = (fst (resource_path store_manager h st) = Inl ResourceManagerError)"
  by (simp add: resources_def store_manager_def resolve_def split: option.splits)

text \<open>
  Claim C2. On the resource store, a fetch of a hash that the store does not hold returns
  the not-found outcome \<open>HTTPException 404\<close> as a value and leaves the store as it
  was; the store after any run of registrations holds exactly the handles these returned,
  so this is the outcome of every hash that was never issued. The fetch is a 404 exactly
  when the lookup of the path fails with \<open>ResourceManagerError\<close>; and on any resource
  manager, a \<open>ResourceManagerError\<close> of the lookup becomes the 404.
\<close>

theorem unissued_hash_not_found:
  "(st h = None \<longrightarrow> resources store_manager h st = (Inl (HTTPException 404), st)) \<and>
   ((fst (resources store_manager h st) = Inl (HTTPException 404))
      = (fst (resource_path store_manager h st) = Inl ResourceManagerError)) \<and>
   ((fst (resources store_manager h st) = Inl (HTTPException 404)) = (st h = None)) \<and>
   (register_each fs hash ps empty_store = (issued, st) \<and> h \<notin> set issued \<longrightarrow>
      resources store_manager h st = (Inl (HTTPException 404), st)) \<and>
   (resource_path rm h s = (Inl ResourceManagerError, s') \<longrightarrow>
      resources rm h s = (Inl (HTTPException 404), s'))"
proof (intro conjI impI)
  assume "st h = None"
  then show "resources store_manager h st = (Inl (HTTPException 404), st)"
    by (rule resolve_unissued)
next
  show "(fst (resources store_manager h st) = Inl (HTTPException 404))
      = (fst (resource_path store_manager h st) = Inl ResourceManagerError)"
    by (rule resources_not_found_iff)
next
  show "(fst (resources store_manager h st) = Inl (HTTPException 404)) = (st h = None)"
    by (simp add: resources_def store_manager_def resolve_def split: option.splits)
next
  assume a: "register_each fs hash ps empty_store = (issued, st) \<and> h \<notin> set issued"
  then have "dom st = dom empty_store \<union> set issued"
    using register_each_dom by blast
  with a have "h \<notin> dom st" by (simp add: empty_store_def)
  then have "st h = None" by blast
  then show "resources store_manager h st = (Inl (HTTPException 404), st)"
    by (rule resolve_unissued)
next
  assume "resource_path rm h s = (Inl ResourceManagerError, s')"
  then show "resources rm h s = (Inl (HTTPException 404), s')"
    by (simp add: resources_def)
qed

text \<open>
  In the scenario the only handle issued is the one of the portrait of \<open>abc\<close>, and
  \<open>deadbeef\<close> is not found, on that store and on the empty one.
\<close>

lemma abc_register_each:
  "register_each abc_files (content_hash abc_resolver) [''abc/portrait.png''] empty_store
     = ([''hP''], abc_store)"
  by (simp add: register_def scenario_defs)

theorem unissued_hash_not_found_witness:
  "register_each abc_files (content_hash abc_resolver) [''abc/portrait.png''] empty_store
     = ([''hP''], abc_store) \<and>
   ''deadbeef'' \<notin> set [''hP''] \<and>
   resources store_manager ''deadbeef'' abc_store = (Inl (HTTPException 404), abc_store) \<and>
   resource_path store_manager ''deadbeef'' abc_store = (Inl ResourceManagerError, abc_store) \<and>
   resources store_manager ''deadbeef'' empty_store = (Inl (HTTPException 404), empty_store)"
proof -
  note t = unissued_hash_not_found [where h = "''deadbeef''" and fs = abc_files
      and hash = "content_hash abc_resolver" and ps = "[''abc/portrait.png'']"
      and issued = "[''hP'']" and rm = store_manager and s = empty_store and s' = empty_store]
  have n: "''deadbeef'' \<notin> set [''hP'']" by simp
  from t [where st = abc_store] abc_register_each n
  have a: "resources store_manager ''deadbeef'' abc_store = (Inl (HTTPException 404), abc_store)"
    by blast
  have b: "resource_path store_manager ''deadbeef'' abc_store
      = (Inl ResourceManagerError, abc_store)"
    by (simp add: store_manager_def resolve_def abc_store_def)
  have "empty_store ''deadbeef'' = None" by (simp add: empty_store_def)
  with t [where st = empty_store]
  have c: "resources store_manager ''deadbeef'' empty_store = (Inl (HTTPException 404), empty_store)"
    by blast
  show ?thesis by (intro conjI abc_register_each n a b c)
qed



section \<open>The capability of the detail queries\<close>

lemma then_do_succeeds:
  "(\<exists>b s2. then_do m f s = (Inr b, s2))
     = (\<exists>a s1. m s = (Inr a, s1) \<and> (\<exists>b s2. f a s1 = (Inr b, s2)))"
  by (auto simp: then_do_def split: prod.splits sum.splits)

lemma result_succeeds: "(\<exists>b s2. result a s = (Inr b, s2)) = True"
  by (simp add: result_def)

lemma then_do_fails:
  assumes "then_do m f s = (Inl e, s')"
    and "\<And>s s'. m s = (Inl e, s') \<Longrightarrow> P"
    and "\<And>a s s'. f a s = (Inl e, s') \<Longrightarrow> P"
  shows P
  using assms by (auto simp: then_do_def split: prod.splits sum.splits)

lemma resolve_resource_succeeds:
  "(\<exists>x s'. resolve_resource r b fmt p s = (Inr x, s')) = (files r p \<noteq> None)"
  by (cases fmt)
    (auto simp: resolve_resource_def register_def then_do_def result_def raise_def
      split: option.splits)

lemma resolve_resource_fails:
  "resolve_resource r b fmt p s = (Inl e, s') \<Longrightarrow> e = AssetUnreadable"
  by (cases fmt)
    (auto simp: resolve_resource_def register_def then_do_def result_def raise_def
      split: option.splits)

lemma resolve_resources_succeeds:
  "(\<exists>xs s'. resolve_resources r b fmt ps s = (Inr xs, s')) = (\<forall>p \<in> set ps. files r p \<noteq> None)"
proof (induction ps arbitrary: s)
  case Nil
  show ?case by (simp add: result_def)
next
  case (Cons p ps)
  show ?case
    by (simp add: then_do_succeeds result_succeeds Cons.IH resolve_resource_succeeds)
qed

lemma resolve_resources_fails:
  "resolve_resources r b fmt ps s = (Inl e, s') \<Longrightarrow> e = AssetUnreadable"
proof (induction ps arbitrary: s s')
  case Nil
  then show ?case by (simp add: result_def)
next
  case (Cons p ps)
  from Cons.prems show ?case
    apply simp
    apply (erule then_do_fails)
     apply (erule resolve_resource_fails)
    apply (erule then_do_fails)
     apply (erule Cons.IH)
    apply (simp add: result_def)
    done
qed

lemma style_detail_succeeds:
  "(\<exists>x s'. style_detail r b fmt style s = (Inr x, s'))
     = (\<forall>p \<in> set (style_paths r style). files r p \<noteq> None)"
  by (cases "style_portrait_file r (style_id style)")
    (simp_all add: style_detail_def style_paths_def then_do_succeeds result_succeeds
      resolve_resource_succeeds resolve_resources_succeeds)

lemma style_detail_fails:
  "style_detail r b fmt style s = (Inl e, s') \<Longrightarrow> e = AssetUnreadable"
  unfolding style_detail_def
  apply (erule then_do_fails)
   apply (erule resolve_resource_fails)
  apply (erule then_do_fails)
   apply (cases "style_portrait_file r (style_id style)")
    apply (simp add: result_def)
   apply simp
   apply (erule then_do_fails)
    apply (erule resolve_resource_fails)
   apply (simp add: result_def)
  apply (erule then_do_fails)
   apply (erule resolve_resources_fails)
  apply (simp add: result_def)
  done

lemma style_details_succeeds:
  "(\<exists>xs s'. style_details r b fmt sts s = (Inr xs, s'))
     = (\<forall>p \<in> set (concat (map (style_paths r) sts)). files r p \<noteq> None)"
proof (induction sts arbitrary: s)
  case Nil
  show ?case by (simp add: result_def)
next
  case (Cons a sts)
  show ?case
    by (simp add: then_do_succeeds result_succeeds Cons.IH style_detail_succeeds ball_Un)
qed

lemma style_details_fails:
  "style_details r b fmt sts s = (Inl e, s') \<Longrightarrow> e = AssetUnreadable"
proof (induction sts arbitrary: s s')
  case Nil
  then show ?case by (simp add: result_def)
next
  case (Cons a sts)
  from Cons.prems show ?case
    apply simp
    apply (erule then_do_fails)
     apply (erule style_detail_fails)
    apply (erule then_do_fails)
     apply (erule Cons.IH)
    apply (simp add: result_def)
    done
qed

lemma find_unique:
  assumes "c \<in> set cs" and "\<forall>d \<in> set cs. uuid d = uuid c \<longrightarrow> d = c"
  shows "find (\<lambda>d. uuid d = uuid c \<and> P d) cs = (if P c then Some c else None)"
  using assms by (induction cs) (auto simp: find_None_iff)

lemma character_detail_found:
  assumes "c \<in> set cs" and "\<forall>d \<in> set cs. uuid d = uuid c \<longrightarrow> d = c"
    and "has_capability cap c"
  shows "character_detail r (uuid c) cap cs b fmt =
     then_do (resolve_resource r b fmt (portrait_file r (uuid c))) (\<lambda>po.
     then_do (style_details r b fmt
                (case cap of Talk \<Rightarrow> talk_styles c | Sing \<Rightarrow> sing_styles c)) (\<lambda>sis.
     result \<lparr>policy = policy_text r (uuid c), portrait = po, style_infos = sis\<rparr>))"
  by (simp add: character_detail_def find_unique [OF assms(1,2)] assms(3))

lemma character_detail_unknown:
  assumes "c \<in> set cs" and "\<forall>d \<in> set cs. uuid d = uuid c \<longrightarrow> d = c"
    and "\<not> has_capability cap c"
  shows "character_detail r (uuid c) cap cs b fmt = raise UnknownCharacter"
  by (simp add: character_detail_def find_unique [OF assms(1,2)] assms(3))

lemma character_detail_succeeds:
  assumes "c \<in> set cs" and "\<forall>d \<in> set cs. uuid d = uuid c \<longrightarrow> d = c"
    and "has_capability cap c"
  shows "(\<exists>info s'. character_detail r (uuid c) cap cs b fmt s = (Inr info, s'))
     = (\<forall>p \<in> set (character_paths r cap c). files r p \<noteq> None)"
  by (simp add: character_detail_found [OF assms] character_paths_def then_do_succeeds
      result_succeeds resolve_resource_succeeds style_details_succeeds)

lemma uuid_unique:
  assumes "distinct (map uuid cs)" and "c \<in> set cs"
  shows "\<forall>d \<in> set cs. uuid d = uuid c \<longrightarrow> d = c"
  using assms by (meson distinct_map inj_onD)

lemma character_detail_raises:
  assumes "character_detail r u cap cs b fmt s = (Inl e, s')"
  shows "(e = UnknownCharacter \<and> find (\<lambda>c. uuid c = u \<and> has_capability cap c) cs = None) \<or>
         e = AssetUnreadable"
proof (cases "find (\<lambda>c. uuid c = u \<and> has_capability cap c) cs")
  case None
  with assms show ?thesis by (simp add: character_detail_def raise_def)
next
  case (Some c)
  with assms have "then_do (resolve_resource r b fmt (portrait_file r (uuid c))) (\<lambda>po.
          then_do (style_details r b fmt
                     (case cap of Talk \<Rightarrow> talk_styles c | Sing \<Rightarrow> sing_styles c)) (\<lambda>sis.
          result \<lparr>policy = policy_text r (uuid c), portrait = po, style_infos = sis\<rparr>)) s
        = (Inl e, s')"
    by (simp add: character_detail_def)
  then have "e = AssetUnreadable"
    apply -
    apply (erule then_do_fails)
     apply (erule resolve_resource_fails)
    apply (erule then_do_fails)
     apply (erule style_details_fails)
    apply (simp add: result_def)
    done
  then show ?thesis by simp
qed

lemma character_detail_known:
  assumes "c \<in> set cs" and "has_capability cap c"
  shows "fst (character_detail r (uuid c) cap cs b fmt s) \<noteq> Inl UnknownCharacter"
proof
  assume a: "fst (character_detail r (uuid c) cap cs b fmt s) = Inl UnknownCharacter"
  then obtain s' where "character_detail r (uuid c) cap cs b fmt s = (Inl UnknownCharacter, s')"
    by (cases "character_detail r (uuid c) cap cs b fmt s") simp
  from character_detail_raises [OF this]
  have "find (\<lambda>d. uuid d = uuid c \<and> has_capability cap d) cs = None" by simp
  with assms show False by (simp add: find_None_iff)
qed

text \<open>
  Claim C5. \<open>speaker_info\<close> calls the metadata store with the capability \<open>Talk\<close> and
  \<open>singer_info\<close> with \<open>Sing\<close>, whatever the store is. Hence, on the resolver and in
  the core the query is resolved against: for a character with a talk style,
  \<open>speaker_info\<close> of its uuid does not fail with \<open>UnknownCharacter\<close>; for a character
  without a sing style, its uuid being that of no other character of the core,
  \<open>singer_info\<close> of its uuid fails with \<open>UnknownCharacter\<close>; and \<open>speaker_info\<close>
  returns the detail of the character with a talk style when the files of its talk detail
  are there to be read.
\<close>

theorem detail_capability:
  "speaker_info cm ms b u fmt cv
      = then_do (resolve_core cm cv) (\<lambda>core.
          character_info ms u Talk (characters core) b
            (case fmt of None \<Rightarrow> Base64 | Some f \<Rightarrow> f)) \<and>
   singer_info cm ms b u fmt cv
      = then_do (resolve_core cm cv) (\<lambda>core.
          character_info ms u Sing (characters core) b
            (case fmt of None \<Rightarrow> Base64 | Some f \<Rightarrow> f)) \<and>
   (resolve_core cm cv s = (Inr core, s') \<and> c \<in> set (characters core) \<and>
    talk_styles c \<noteq> [] \<longrightarrow>
      fst (speaker_info cm (resolver_store r) b (uuid c) fmt cv s) \<noteq> Inl UnknownCharacter) \<and>
   (resolve_core cm cv s = (Inr core, s') \<and> c \<in> set (characters core) \<and>
    distinct (map uuid (characters core)) \<and> sing_styles c = [] \<longrightarrow>
      singer_info cm (resolver_store r) b (uuid c) fmt cv s = (Inl UnknownCharacter, s')) \<and>
   (resolve_core cm cv s = (Inr core, s') \<and> c \<in> set (characters core) \<and>
    distinct (map uuid (characters core)) \<and> talk_styles c \<noteq> [] \<and>
    (\<forall>p \<in> set (character_paths r Talk c). files r p \<noteq> None) \<longrightarrow>
      (\<exists>info s2. speaker_info cm (resolver_store r) b (uuid c) fmt cv s = (Inr info, s2)))"
proof (intro conjI impI)
  show "speaker_info cm ms b u fmt cv
      = then_do (resolve_core cm cv) (\<lambda>core.
          character_info ms u Talk (characters core) b
            (case fmt of None \<Rightarrow> Base64 | Some f \<Rightarrow> f))"
    by (rule speaker_info_resolve)
next
  show "singer_info cm ms b u fmt cv
      = then_do (resolve_core cm cv) (\<lambda>core.
          character_info ms u Sing (characters core) b
            (case fmt of None \<Rightarrow> Base64 | Some f \<Rightarrow> f))"
    by (rule singer_info_resolve)
next
  let ?f = "case fmt of None \<Rightarrow> Base64 | Some f \<Rightarrow> f"
  assume h: "resolve_core cm cv s = (Inr core, s') \<and> c \<in> set (characters core) \<and>
    talk_styles c \<noteq> []"
  then have core: "resolve_core cm cv s = (Inr core, s')" and c: "c \<in> set (characters core)"
    and ct: "has_capability Talk c"
    by (simp_all add: has_capability_def)
  note k = then_do_Inr [where m = "resolve_core cm cv", OF core]
  have sp: "speaker_info cm (resolver_store r) b (uuid c) fmt cv s
      = character_detail r (uuid c) Talk (characters core) b ?f s'"
    by (simp only: speaker_info_resolve k) (simp add: resolver_store_def)
  show "fst (speaker_info cm (resolver_store r) b (uuid c) fmt cv s) \<noteq> Inl UnknownCharacter"
    unfolding sp by (rule character_detail_known [OF c ct])
next
  let ?f = "case fmt of None \<Rightarrow> Base64 | Some f \<Rightarrow> f"
  assume h: "resolve_core cm cv s = (Inr core, s') \<and> c \<in> set (characters core) \<and>
    distinct (map uuid (characters core)) \<and> sing_styles c = []"
  then have core: "resolve_core cm cv s = (Inr core, s')" and c: "c \<in> set (characters core)"
    and d: "distinct (map uuid (characters core))" and cs: "\<not> has_capability Sing c"
    by (simp_all add: has_capability_def)
  note k = then_do_Inr [where m = "resolve_core cm cv", OF core]
  have si: "singer_info cm (resolver_store r) b (uuid c) fmt cv s
      = character_detail r (uuid c) Sing (characters core) b ?f s'"
    by (simp only: singer_info_resolve k) (simp add: resolver_store_def)
  show "singer_info cm (resolver_store r) b (uuid c) fmt cv s = (Inl UnknownCharacter, s')"
    by (simp add: si character_detail_unknown [OF c uuid_unique [OF d c] cs] raise_def)
next
  let ?f = "case fmt of None \<Rightarrow> Base64 | Some f \<Rightarrow> f"
  assume h: "resolve_core cm cv s = (Inr core, s') \<and> c \<in> set (characters core) \<and>
    distinct (map uuid (characters core)) \<and> talk_styles c \<noteq> [] \<and>
    (\<forall>p \<in> set (character_paths r Talk c). files r p \<noteq> None)"
  then have core: "resolve_core cm cv s = (Inr core, s')" and c: "c \<in> set (characters core)"
    and d: "distinct (map uuid (characters core))" and ct: "has_capability Talk c"
    and rd: "\<forall>p \<in> set (character_paths r Talk c). files r p \<noteq> None"
    by (simp_all add: has_capability_def)
  note k = then_do_Inr [where m = "resolve_core cm cv", OF core]
  have sp: "speaker_info cm (resolver_store r) b (uuid c) fmt cv s
      = character_detail r (uuid c) Talk (characters core) b ?f s'"
    by (simp only: speaker_info_resolve k) (simp add: resolver_store_def)
  show "\<exists>info s2. speaker_info cm (resolver_store r) b (uuid c) fmt cv s = (Inr info, s2)"
    unfolding sp using character_detail_succeeds [OF c uuid_unique [OF d c] ct] rd by blast
qed

text \<open>
  In the scenario \<open>abc\<close> has a talk style and no sing style: \<open>singer_info\<close> of its
  uuid fails with \<open>UnknownCharacter\<close> and \<open>speaker_info\<close> returns its detail.
\<close>

lemma abc_readable: "\<forall>p \<in> set (character_paths abc_resolver Talk abc). files abc_resolver p \<noteq> None"
  by (simp add: character_paths_def style_paths_def scenario_defs)

theorem detail_capability_witness:
  "resolve_core (registry_manager abc_registry) None empty_store = (Inr abc_core, empty_store) \<and>
   distinct (map uuid (characters abc_core)) \<and>
   abc \<in> set (characters abc_core) \<and> uuid abc = ''abc'' \<and>
   talk_styles abc \<noteq> [] \<and> sing_styles abc = [] \<and>
   singer_info (registry_manager abc_registry) (resolver_store abc_resolver)
     ''http://h/_resources'' (uuid abc) None None empty_store
     = (Inl UnknownCharacter, empty_store) \<and>
   (\<exists>info s2. speaker_info (registry_manager abc_registry) (resolver_store abc_resolver)
     ''http://h/_resources'' (uuid abc) None None empty_store = (Inr info, s2)) \<and>
   fst (speaker_info (registry_manager abc_registry) (resolver_store abc_resolver)
     ''http://h/_resources'' (uuid abc) None None empty_store) \<noteq> Inl UnknownCharacter \<and>
   speaker_info (registry_manager abc_registry) (resolver_store abc_resolver)
     ''http://h/_resources'' ''abc'' (Some Base64) None empty_store
   = (Inr \<lparr>policy = ''policy'', portrait = ''bP'',
            style_infos = [\<lparr>info_id = 0, icon = ''bI'', style_portrait = None,
                             voice_samples = [''bV'']\<rparr>]\<rparr>, empty_store)"
proof -
  have d: "distinct (map uuid (characters abc_core))"
    by (simp add: scenario_defs)
  have a: "abc \<in> set (characters abc_core)" "uuid abc = ''abc''" "talk_styles abc \<noteq> []"
    "sing_styles abc = []"
    by (simp_all add: scenario_defs)
  note t = detail_capability [where cm = "registry_manager abc_registry" and cv = None
      and s = empty_store and core = abc_core and s' = empty_store and c = abc
      and r = abc_resolver and b = "''http://h/_resources''" and fmt = None
      and ms = "resolver_store abc_resolver" and u = "''abc''"]
  note t3 = t [THEN conjunct2, THEN conjunct2, THEN conjunct1]
  note t4 = t [THEN conjunct2, THEN conjunct2, THEN conjunct2, THEN conjunct1]
  note t5 = t [THEN conjunct2, THEN conjunct2, THEN conjunct2, THEN conjunct2]
  have g: "singer_info (registry_manager abc_registry) (resolver_store abc_resolver)
     ''http://h/_resources'' (uuid abc) None None empty_store
     = (Inl UnknownCharacter, empty_store)"
    by (rule mp [OF t4]) (intro conjI abc_resolve_core d a)
  have k: "\<exists>info s2. speaker_info (registry_manager abc_registry) (resolver_store abc_resolver)
     ''http://h/_resources'' (uuid abc) None None empty_store = (Inr info, s2)"
    by (rule mp [OF t5]) (intro conjI abc_resolve_core d a abc_readable)
  have n: "fst (speaker_info (registry_manager abc_registry) (resolver_store abc_resolver)
     ''http://h/_resources'' (uuid abc) None None empty_store) \<noteq> Inl UnknownCharacter"
    by (rule mp [OF t3]) (intro conjI abc_resolve_core a)
  show ?thesis by (intro conjI abc_resolve_core d a g k n abc_speaker_info_base64)
qed


section \<open>The empty string as version\<close>

lemma registry_resolve_empty:
  "map_of (loaded reg) (latest reg) = Some core \<Longrightarrow>
   resolve_core (registry_manager reg) (Some '''') s = (Inr core, s)"
  by (simp only: resolve_core_empty registry_resolve_latest)

text \<open>
  Claim C9. With the empty string as \<open>core_version\<close>, each of the four queries calls
  \<open>latest_version()\<close>, then \<open>get_core\<close> on what it returned, then the metadata store on
  the characters of that core: the very query the absent parameter gives. On the registry
  this is the store's answer for the core registered under \<open>latest reg\<close>, whether or not
  a core is registered under the empty string; the registry never fails such a query with
  \<open>UnknownVersion\<close>.
\<close>

theorem empty_version_is_absent:
  "speakers cm ms (Some '''')
     = then_do (latest_version cm) (\<lambda>version.
       then_do (get_core cm version) (\<lambda>core.
       then_do (talk_characters ms (characters core)) (\<lambda>cs.
       result (characters_to_speakers cs)))) \<and>
   singers cm ms (Some '''')
     = then_do (latest_version cm) (\<lambda>version.
       then_do (get_core cm version) (\<lambda>core.
       then_do (sing_characters ms (characters core)) (\<lambda>cs.
       result (characters_to_speakers cs)))) \<and>
   speaker_info cm ms b u fmt (Some '''')
     = then_do (latest_version cm) (\<lambda>version.
       then_do (get_core cm version) (\<lambda>core.
       character_info ms u Talk (characters core) b
         (case fmt of None \<Rightarrow> Base64 | Some f \<Rightarrow> f))) \<and>
   singer_info cm ms b u fmt (Some '''')
     = then_do (latest_version cm) (\<lambda>version.
       then_do (get_core cm version) (\<lambda>core.
       character_info ms u Sing (characters core) b
         (case fmt of None \<Rightarrow> Base64 | Some f \<Rightarrow> f))) \<and>
   speakers cm ms (Some '''') = speakers cm ms None \<and>
   singers cm ms (Some '''') = singers cm ms None \<and>
   speaker_info cm ms b u fmt (Some '''') = speaker_info cm ms b u fmt None \<and>
   singer_info cm ms b u fmt (Some '''') = singer_info cm ms b u fmt None \<and>
   (\<exists>core. map_of (loaded reg) (latest reg) = Some core \<and>
      speakers (registry_manager reg) ms' (Some '''') s
        = then_do (talk_characters ms' (characters core))
            (\<lambda>cs. result (characters_to_speakers cs)) s \<and>
      singers (registry_manager reg) ms' (Some '''') s
        = then_do (sing_characters ms' (characters core))
            (\<lambda>cs. result (characters_to_speakers cs)) s \<and>
      speaker_info (registry_manager reg) ms' b u fmt (Some '''') s
        = character_info ms' u Talk (characters core) b
            (case fmt of None \<Rightarrow> Base64 | Some f \<Rightarrow> f) s \<and>
      singer_info (registry_manager reg) ms' b u fmt (Some '''') s
        = character_info ms' u Sing (characters core) b
            (case fmt of None \<Rightarrow> Base64 | Some f \<Rightarrow> f) s)"
proof -
  have a: "speakers cm ms (Some '''')
     = then_do (latest_version cm) (\<lambda>version.
       then_do (get_core cm version) (\<lambda>core.
       then_do (talk_characters ms (characters core)) (\<lambda>cs.
       result (characters_to_speakers cs))))"
    "singers cm ms (Some '''')
     = then_do (latest_version cm) (\<lambda>version.
       then_do (get_core cm version) (\<lambda>core.
       then_do (sing_characters ms (characters core)) (\<lambda>cs.
       result (characters_to_speakers cs))))"
    "speaker_info cm ms b u fmt (Some '''')
     = then_do (latest_version cm) (\<lambda>version.
       then_do (get_core cm version) (\<lambda>core.
       character_info ms u Talk (characters core) b
         (case fmt of None \<Rightarrow> Base64 | Some f \<Rightarrow> f)))"
    "singer_info cm ms b u fmt (Some '''')
     = then_do (latest_version cm) (\<lambda>version.
       then_do (get_core cm version) (\<lambda>core.
       character_info ms u Sing (characters core) b
         (case fmt of None \<Rightarrow> Base64 | Some f \<Rightarrow> f)))"
    by (simp_all only: speakers_def singers_def speaker_info_def singer_info_def py_or_empty)
  have n: "speakers cm ms (Some '''') = speakers cm ms None"
    "singers cm ms (Some '''') = singers cm ms None"
    "speaker_info cm ms b u fmt (Some '''') = speaker_info cm ms b u fmt None"
    "singer_info cm ms b u fmt (Some '''') = singer_info cm ms b u fmt None"
    by (simp_all only: speakers_def singers_def speaker_info_def singer_info_def py_or_empty
        py_or_None)
  from latest_core obtain core where c: "map_of (loaded reg) (latest reg) = Some core"
    by blast
  note k = then_do_Inr [where m = "resolve_core (registry_manager reg) (Some '''')",
      OF registry_resolve_empty [OF c, of s]]
  have q: "speakers (registry_manager reg) ms' (Some '''') s
        = then_do (talk_characters ms' (characters core))
            (\<lambda>cs. result (characters_to_speakers cs)) s"
      "singers (registry_manager reg) ms' (Some '''') s
        = then_do (sing_characters ms' (characters core))
            (\<lambda>cs. result (characters_to_speakers cs)) s"
      "speaker_info (registry_manager reg) ms' b u fmt (Some '''') s
        = character_info ms' u Talk (characters core) b
            (case fmt of None \<Rightarrow> Base64 | Some f \<Rightarrow> f) s"
      "singer_info (registry_manager reg) ms' b u fmt (Some '''') s
        = character_info ms' u Sing (characters core) b
            (case fmt of None \<Rightarrow> Base64 | Some f \<Rightarrow> f) s"
    by (simp_all only: speakers_resolve singers_resolve speaker_info_resolve
        singer_info_resolve k)
  from c q have r: "\<exists>core. map_of (loaded reg) (latest reg) = Some core \<and>
      speakers (registry_manager reg) ms' (Some '''') s
        = then_do (talk_characters ms' (characters core))
            (\<lambda>cs. result (characters_to_speakers cs)) s \<and>
      singers (registry_manager reg) ms' (Some '''') s
        = then_do (sing_characters ms' (characters core))
            (\<lambda>cs. result (characters_to_speakers cs)) s \<and>
      speaker_info (registry_manager reg) ms' b u fmt (Some '''') s
        = character_info ms' u Talk (characters core) b
            (case fmt of None \<Rightarrow> Base64 | Some f \<Rightarrow> f) s \<and>
      singer_info (registry_manager reg) ms' b u fmt (Some '''') s
        = character_info ms' u Sing (characters core) b
            (case fmt of None \<Rightarrow> Base64 | Some f \<Rightarrow> f) s"
    by blast
  show ?thesis by (intro conjI a n r)
qed

lemma abc_singer_info:
  "singer_info (registry_manager abc_registry) (resolver_store abc_resolver)
     ''http://h/_resources'' ''xyz'' (Some Base64) None empty_store
   = (Inr \<lparr>policy = ''policy'', portrait = ''bQ'',
            style_infos = [\<lparr>info_id = 2, icon = ''bI'', style_portrait = None,
                             voice_samples = [''bV'']\<rparr>]\<rparr>, empty_store)"
  by (simp add: singer_info_def act_defs registry_defs resolver_defs scenario_defs)

text \<open>
  In the scenario no core is registered under the empty string, and with it as version
  each of the four queries returns what the latest core holds: both characters as
  speakers, \<open>xyz\<close> as the one singer, the talk detail of \<open>abc\<close> and the sing detail of
  \<open>xyz\<close>.
\<close>

theorem empty_version_is_absent_witness:
  "map_of (loaded abc_registry) '''' = None \<and>
   speakers (registry_manager abc_registry) (resolver_store abc_resolver) (Some '''') empty_store
     = (Inr [abc_speaker, xyz_speaker], empty_store) \<and>
   singers (registry_manager abc_registry) (resolver_store abc_resolver) (Some '''') empty_store
     = (Inr [xyz_speaker], empty_store) \<and>
   speaker_info (registry_manager abc_registry) (resolver_store abc_resolver)
     ''http://h/_resources'' ''abc'' (Some Base64) (Some '''') empty_store
   = (Inr \<lparr>policy = ''policy'', portrait = ''bP'',
            style_infos = [\<lparr>info_id = 0, icon = ''bI'', style_portrait = None,
                             voice_samples = [''bV'']\<rparr>]\<rparr>, empty_store) \<and>
   singer_info (registry_manager abc_registry) (resolver_store abc_resolver)
     ''http://h/_resources'' ''xyz'' (Some Base64) (Some '''') empty_store
   = (Inr \<lparr>policy = ''policy'', portrait = ''bQ'',
            style_infos = [\<lparr>info_id = 2, icon = ''bI'', style_portrait = None,
                             voice_samples = [''bV'']\<rparr>]\<rparr>, empty_store)"
proof -
  have m: "map_of (loaded abc_registry) '''' = None"
    by (simp add: loaded_def abc_registry_def)
  note t = empty_version_is_absent [where cm = "registry_manager abc_registry"
      and ms = "resolver_store abc_resolver" and b = "''http://h/_resources''"
      and fmt = "Some Base64" and reg = abc_registry and ms' = "resolver_store abc_resolver"
      and s = empty_store]
  from t [where u = "''abc''"]
  have e: "speakers (registry_manager abc_registry) (resolver_store abc_resolver) (Some '''')
      = speakers (registry_manager abc_registry) (resolver_store abc_resolver) None"
    "singers (registry_manager abc_registry) (resolver_store abc_resolver) (Some '''')
      = singers (registry_manager abc_registry) (resolver_store abc_resolver) None"
    "speaker_info (registry_manager abc_registry) (resolver_store abc_resolver)
       ''http://h/_resources'' ''abc'' (Some Base64) (Some '''')
      = speaker_info (registry_manager abc_registry) (resolver_store abc_resolver)
       ''http://h/_resources'' ''abc'' (Some Base64) None"
    by blast+
  from t [where u = "''xyz''"]
  have f: "singer_info (registry_manager abc_registry) (resolver_store abc_resolver)
       ''http://h/_resources'' ''xyz'' (Some Base64) (Some '''')
      = singer_info (registry_manager abc_registry) (resolver_store abc_resolver)
       ''http://h/_resources'' ''xyz'' (Some Base64) None"
    by blast
  show ?thesis
    by (simp only: e f abc_speakers abc_singers abc_speaker_info_base64 abc_singer_info m
        simp_thms)
qed

end
